theory Spec2Isabelle
  imports Main "HOL-Library.AList"
begin

section \<open>Python values, strings and dictionaries\<close>

text \<open>
  The property values and loosely typed arguments of the API are Python objects. The
  model keeps the built-in scalars \<open>None\<close>, \<open>bool\<close>, \<open>int\<close> and \<open>str\<close>; floats and
  containers are left out. A Python \<open>str\<close> is modelled by its UTF-8 encoding (a \<open>string\<close>
  is a list of bytes), so \<open>s.encode('utf-8')\<close> is the identity and
  \<open>b.decode('utf-8')\<close> succeeds exactly on the well-formed byte sequences.
\<close>

datatype pyval = PNone | PBool bool | PInt int | PStr string

text \<open>Python's \<open>==\<close> on these values: a \<open>bool\<close> is an \<open>int\<close> (\<open>True == 1\<close>).\<close>

fun py_eq :: "pyval \<Rightarrow> pyval \<Rightarrow> bool" where
  "py_eq PNone PNone = True"
| "py_eq (PBool a) (PBool b) = (a = b)"
| "py_eq (PInt a) (PInt b) = (a = b)"
| "py_eq (PBool a) (PInt b) = ((if a then 1 else 0) = b)"
| "py_eq (PInt a) (PBool b) = (a = (if b then 1 else 0))"
| "py_eq (PStr a) (PStr b) = (a = b)"
| "py_eq _ _ = False"

text \<open>\<open>isinstance(x, str)\<close>.\<close>

fun isinstance_str :: "pyval \<Rightarrow> bool" where
  "isinstance_str (PStr s) = True"
| "isinstance_str _ = False"

fun digit_char :: "nat \<Rightarrow> char" where
  "digit_char n = char_of (48 + n)"

fun str_of_nat :: "nat \<Rightarrow> string" where
  "str_of_nat n =
     (if n < 10 then [digit_char n] else str_of_nat (n div 10) @ [digit_char (n mod 10)])"

definition str_of_int :: "int \<Rightarrow> string" where
  "str_of_int i = (if i < 0 then CHR ''-'' # str_of_nat (nat (- i)) else str_of_nat (nat i))"

text \<open>\<open>str(x)\<close>.\<close>

fun py_str :: "pyval \<Rightarrow> string" where
  "py_str PNone = ''None''"
| "py_str (PBool b) = (if b then ''True'' else ''False'')"
| "py_str (PInt i) = str_of_int i"
| "py_str (PStr s) = s"

text \<open>
  A \<open>dict\<close> is an association list with distinct keys in insertion order:
  \<open>d[k] = v\<close> is \<open>AList.update\<close> (an existing key keeps its place, a new one goes
  last), \<open>k in d\<close> is \<open>dict_contains\<close>, \<open>d.values()\<close> is \<open>dict_values\<close>, and
  \<open>del d[k]\<close> raises \<open>KeyError\<close> on a missing key.
\<close>

type_synonym ('k, 'v) pydict = "('k \<times> 'v) list"

definition dict_contains :: "'k \<Rightarrow> ('k, 'v) pydict \<Rightarrow> bool" where
  "dict_contains k d = (map_of d k \<noteq> None)"

definition dict_values :: "('k, 'v) pydict \<Rightarrow> 'v list" where
  "dict_values d = map snd d"

section \<open>The error taxonomy (exceptions.py)\<close>

text \<open>
  An exception is modelled by its class and the exception it was raised \<open>from\<close>; the
  message text is not modelled. Besides the classes of exceptions.py, the model needs
  three built-in classes that the code can let through.
\<close>

datatype exc_class =
    TinkerGraphError
  | TinkerGraphNativeError
  | TinkerGraphLibraryError
  | TinkerGraphVertexError
  | TinkerGraphEdgeError
  | TinkerGraphMemoryError
  | TinkerGraphValidationError
  | TinkerGraphConfigurationError
  | KeyError
  | ValueError
  | UnicodeDecodeError

datatype exc = Exc exc_class "exc option"

text \<open>
  The base class of each class inside the library: \<open>TinkerGraphError\<close> is the root
  (its base is the built-in \<open>Exception\<close>), every other class of exceptions.py derives
  from it directly.
\<close>

fun base_class :: "exc_class \<Rightarrow> exc_class option" where
  "base_class TinkerGraphNativeError = Some TinkerGraphError"
| "base_class TinkerGraphLibraryError = Some TinkerGraphError"
| "base_class TinkerGraphVertexError = Some TinkerGraphError"
| "base_class TinkerGraphEdgeError = Some TinkerGraphError"
| "base_class TinkerGraphMemoryError = Some TinkerGraphError"
| "base_class TinkerGraphValidationError = Some TinkerGraphError"
| "base_class TinkerGraphConfigurationError = Some TinkerGraphError"
| "base_class _ = None"

text \<open>
  \<open>except h\<close> catches an exception of class \<open>c\<close> when \<open>c\<close> is \<open>h\<close> or derives from it.
\<close>

definition catches :: "exc_class \<Rightarrow> exc_class \<Rightarrow> bool" where
  "catches h c = (c = h \<or> base_class c = Some h)"

text \<open>
  A leaf kind of the library: a class of exceptions.py other than the root.
\<close>

definition leaf_kind :: "exc_class \<Rightarrow> bool" where
  "leaf_kind c = (base_class c = Some TinkerGraphError)"

text \<open>\<open>raise_native_error\<close>, \<open>raise_validation_error\<close>: the class raised.\<close>

definition raise_native_error :: exc where
  "raise_native_error = Exc TinkerGraphNativeError None"

definition raise_validation_error :: exc where
  "raise_validation_error = Exc TinkerGraphValidationError None"

section \<open>The native function table (bindings.py)\<close>

text \<open>
  The native library is not part of the Python sources: it is a parameter of the model,
  a table of the entry points whose signatures \<open>_configure_functions\<close> declares, acting on
  a native state of any type \<open>'n\<close>. A handle is an address; \<open>0\<close> is the null pointer. The
  two string retrievals and the error-message retrieval get the buffer size and give back
  the returned length and the bytes that are in the buffer afterwards.
\<close>

type_synonym ptr = nat

record 'n native_lib =
  tinkergraph_create :: "'n \<Rightarrow> ptr \<times> 'n"
  tinkergraph_destroy :: "'n \<Rightarrow> ptr \<Rightarrow> 'n"
  tinkergraph_add_vertex :: "'n \<Rightarrow> ptr \<Rightarrow> string option \<Rightarrow> ptr \<times> 'n"
  tinkergraph_add_vertex_with_properties ::
    "'n \<Rightarrow> ptr \<Rightarrow> string option \<Rightarrow> string list \<Rightarrow> string list \<Rightarrow> int \<Rightarrow> ptr \<times> 'n"
  tinkergraph_add_edge :: "'n \<Rightarrow> ptr \<Rightarrow> string \<Rightarrow> ptr \<Rightarrow> ptr \<Rightarrow> ptr \<times> 'n"
  tinkergraph_add_edge_with_properties ::
    "'n \<Rightarrow> ptr \<Rightarrow> string \<Rightarrow> ptr \<Rightarrow> ptr \<Rightarrow> string list \<Rightarrow> string list \<Rightarrow> int \<Rightarrow> ptr \<times> 'n"
  tinkergraph_vertex_count :: "'n \<Rightarrow> ptr \<Rightarrow> int"
  tinkergraph_edge_count :: "'n \<Rightarrow> ptr \<Rightarrow> int"
  tinkergraph_vertex_id :: "'n \<Rightarrow> ptr \<Rightarrow> nat \<Rightarrow> int \<times> string"
  tinkergraph_edge_label :: "'n \<Rightarrow> ptr \<Rightarrow> nat \<Rightarrow> int \<times> string"
  tinkergraph_destroy_vertex :: "'n \<Rightarrow> ptr \<Rightarrow> 'n"
  tinkergraph_destroy_edge :: "'n \<Rightarrow> ptr \<Rightarrow> 'n"
  tinkergraph_get_error_message :: "'n \<Rightarrow> nat \<Rightarrow> int \<times> string"

text \<open>Every call through the table is recorded, in order.\<close>

datatype native_call =
    Call_create
  | Call_destroy ptr
  | Call_add_vertex ptr "string option"
  | Call_add_vertex_with_properties ptr "string option" "string list" "string list" int
  | Call_add_edge ptr string ptr ptr
  | Call_add_edge_with_properties ptr string ptr ptr "string list" "string list" int
  | Call_vertex_count ptr
  | Call_edge_count ptr
  | Call_vertex_id ptr nat
  | Call_edge_label ptr nat
  | Call_destroy_vertex ptr
  | Call_destroy_edge ptr
  | Call_get_error_message nat

text \<open>The process-wide native side: the library's state and the calls made so far.\<close>

record 'n process =
  nstate :: 'n
  calls :: "native_call list"

definition called :: "native_call \<Rightarrow> 'n \<Rightarrow> 'n process \<Rightarrow> 'n process" where
  "called c n P = \<lparr>nstate = n, calls = calls P @ [c]\<rparr>"

subsection \<open>Fixed-size string buffers\<close>

text \<open>
  \<open>ctypes.create_string_buffer(N)\<close> is \<open>N\<close> zero bytes; after the native call the buffer
  still has \<open>N\<close> bytes, and \<open>buffer.value\<close> is the bytes before the first NUL.
\<close>

definition NUL :: char where
  "NUL = CHR 0x00"

definition buffer_after :: "nat \<Rightarrow> string \<Rightarrow> string" where
  "buffer_after N written = take N (written @ replicate N NUL)"

definition buffer_value :: "string \<Rightarrow> string" where
  "buffer_value buf = takeWhile (\<lambda>c. c \<noteq> NUL) buf"

definition utf8_cont :: "char \<Rightarrow> bool" where
  "utf8_cont c = (128 \<le> (of_char c :: nat) \<and> (of_char c :: nat) < 192)"

text \<open>Well-formed UTF-8, as the strict decoder of \<open>bytes.decode('utf-8')\<close> accepts it.\<close>

fun utf8_valid :: "string \<Rightarrow> bool" where
  "utf8_valid [] = True"
| "utf8_valid (a # bs) =
     (let x = (of_char a :: nat) in
      if x < 128 then utf8_valid bs
      else if 194 \<le> x \<and> x < 224 then
        (case bs of b # r \<Rightarrow> utf8_cont b \<and> utf8_valid r | _ \<Rightarrow> False)
      else if 224 \<le> x \<and> x < 240 then
        (case bs of b # c # r \<Rightarrow>
           utf8_cont b \<and> utf8_cont c
           \<and> (x = 224 \<longrightarrow> 160 \<le> (of_char b :: nat))
           \<and> (x = 237 \<longrightarrow> (of_char b :: nat) < 160)
           \<and> utf8_valid r
         | _ \<Rightarrow> False)
      else if 240 \<le> x \<and> x < 245 then
        (case bs of b # c # d # r \<Rightarrow>
           utf8_cont b \<and> utf8_cont c \<and> utf8_cont d
           \<and> (x = 240 \<longrightarrow> 144 \<le> (of_char b :: nat))
           \<and> (x = 244 \<longrightarrow> (of_char b :: nat) < 144)
           \<and> utf8_valid r
         | _ \<Rightarrow> False)
      else False)"

definition decode_utf8 :: "string \<Rightarrow> exc + string" where
  "decode_utf8 bs = (if utf8_valid bs then Inr bs else Inl (Exc UnicodeDecodeError None))"

text \<open>
  \<open>buffer.value.decode('utf-8') if buffer.value else dflt\<close>.
\<close>

definition decode_or :: "string \<Rightarrow> string \<Rightarrow> exc + string" where
  "decode_or dflt buf =
     (if buffer_value buf \<noteq> [] then decode_utf8 (buffer_value buf) else Inr dflt)"

subsection \<open>NativeGraphHandle: one operation per entry point\<close>

text \<open>\<open>vertex_id.encode('utf-8') if vertex_id else None\<close>: an empty id is sent as null.\<close>

definition id_bytes :: "string option \<Rightarrow> string option" where
  "id_bytes vertex_id =
     (case vertex_id of None \<Rightarrow> None | Some s \<Rightarrow> if s = [] then None else Some s)"

definition NativeGraphHandle_add_vertex ::
  "'n native_lib \<Rightarrow> 'n process \<Rightarrow> ptr \<Rightarrow> string option \<Rightarrow> (exc + ptr) \<times> 'n process" where
  "NativeGraphHandle_add_vertex nt P h vertex_id =
     (let (vertex_ptr, n) = tinkergraph_add_vertex nt (nstate P) h (id_bytes vertex_id);
          P1 = called (Call_add_vertex h (id_bytes vertex_id)) n P
      in if vertex_ptr = 0 then (Inl raise_native_error, P1) else (Inr vertex_ptr, P1))"

definition NativeGraphHandle_add_vertex_with_properties ::
  "'n native_lib \<Rightarrow> 'n process \<Rightarrow> ptr \<Rightarrow> string option \<Rightarrow> (string, pyval) pydict
     \<Rightarrow> (exc + ptr) \<times> 'n process" where
  "NativeGraphHandle_add_vertex_with_properties nt P h vertex_id properties =
     (let keys = map fst properties;
          vals = map (\<lambda>kv. py_str (snd kv)) properties;
          cnt = int (length properties);
          (vertex_ptr, n) =
            tinkergraph_add_vertex_with_properties nt (nstate P) h (id_bytes vertex_id) keys vals cnt;
          P1 = called (Call_add_vertex_with_properties h (id_bytes vertex_id) keys vals cnt) n P
      in if vertex_ptr = 0 then (Inl raise_native_error, P1) else (Inr vertex_ptr, P1))"

definition NativeGraphHandle_add_edge ::
  "'n native_lib \<Rightarrow> 'n process \<Rightarrow> ptr \<Rightarrow> string \<Rightarrow> ptr \<Rightarrow> ptr \<Rightarrow> (exc + ptr) \<times> 'n process" where
  "NativeGraphHandle_add_edge nt P h label out_vertex_ptr in_vertex_ptr =
     (let (edge_ptr, n) = tinkergraph_add_edge nt (nstate P) h label out_vertex_ptr in_vertex_ptr;
          P1 = called (Call_add_edge h label out_vertex_ptr in_vertex_ptr) n P
      in if edge_ptr = 0 then (Inl raise_native_error, P1) else (Inr edge_ptr, P1))"

definition NativeGraphHandle_add_edge_with_properties ::
  "'n native_lib \<Rightarrow> 'n process \<Rightarrow> ptr \<Rightarrow> string \<Rightarrow> ptr \<Rightarrow> ptr \<Rightarrow> (string, pyval) pydict
     \<Rightarrow> (exc + ptr) \<times> 'n process" where
  "NativeGraphHandle_add_edge_with_properties nt P h label out_vertex_ptr in_vertex_ptr properties =
     (let keys = map fst properties;
          vals = map (\<lambda>kv. py_str (snd kv)) properties;
          cnt = int (length properties);
          (edge_ptr, n) =
            tinkergraph_add_edge_with_properties nt (nstate P) h label out_vertex_ptr in_vertex_ptr
              keys vals cnt;
          P1 = called
                 (Call_add_edge_with_properties h label out_vertex_ptr in_vertex_ptr keys vals cnt) n P
      in if edge_ptr = 0 then (Inl raise_native_error, P1) else (Inr edge_ptr, P1))"

definition NativeGraphHandle_vertex_count :: "'n native_lib \<Rightarrow> 'n process \<Rightarrow> ptr \<Rightarrow> int \<times> 'n process" where
  "NativeGraphHandle_vertex_count nt P h =
     (tinkergraph_vertex_count nt (nstate P) h, called (Call_vertex_count h) (nstate P) P)"

definition NativeGraphHandle_edge_count :: "'n native_lib \<Rightarrow> 'n process \<Rightarrow> ptr \<Rightarrow> int \<times> 'n process" where
  "NativeGraphHandle_edge_count nt P h =
     (tinkergraph_edge_count nt (nstate P) h, called (Call_edge_count h) (nstate P) P)"

definition NativeGraphHandle_get_vertex_id ::
  "'n native_lib \<Rightarrow> 'n process \<Rightarrow> ptr \<Rightarrow> nat \<Rightarrow> (exc + string) \<times> 'n process" where
  "NativeGraphHandle_get_vertex_id nt P vertex_ptr buffer_size =
     (let (result_size, written) = tinkergraph_vertex_id nt (nstate P) vertex_ptr buffer_size;
          buffer = buffer_after buffer_size written;
          P1 = called (Call_vertex_id vertex_ptr buffer_size) (nstate P) P
      in if result_size < 0 then (Inl raise_native_error, P1)
         else (decode_or [] buffer, P1))"

definition NativeGraphHandle_get_edge_label ::
  "'n native_lib \<Rightarrow> 'n process \<Rightarrow> ptr \<Rightarrow> nat \<Rightarrow> (exc + string) \<times> 'n process" where
  "NativeGraphHandle_get_edge_label nt P edge_ptr buffer_size =
     (let (result_size, written) = tinkergraph_edge_label nt (nstate P) edge_ptr buffer_size;
          buffer = buffer_after buffer_size written;
          P1 = called (Call_edge_label edge_ptr buffer_size) (nstate P) P
      in if result_size < 0 then (Inl raise_native_error, P1)
         else (decode_or [] buffer, P1))"

definition NativeGraphHandle_destroy_vertex :: "'n native_lib \<Rightarrow> 'n process \<Rightarrow> ptr \<Rightarrow> 'n process" where
  "NativeGraphHandle_destroy_vertex nt P vertex_ptr =
     (if vertex_ptr \<noteq> 0
      then called (Call_destroy_vertex vertex_ptr) (tinkergraph_destroy_vertex nt (nstate P) vertex_ptr) P
      else P)"

definition NativeGraphHandle_destroy_edge :: "'n native_lib \<Rightarrow> 'n process \<Rightarrow> ptr \<Rightarrow> 'n process" where
  "NativeGraphHandle_destroy_edge nt P edge_ptr =
     (if edge_ptr \<noteq> 0
      then called (Call_destroy_edge edge_ptr) (tinkergraph_destroy_edge nt (nstate P) edge_ptr) P
      else P)"

definition NativeGraphHandle_get_last_error ::
  "'n native_lib \<Rightarrow> 'n process \<Rightarrow> nat \<Rightarrow> (exc + string) \<times> 'n process" where
  "NativeGraphHandle_get_last_error nt P buffer_size =
     (let (result_size, written) = tinkergraph_get_error_message nt (nstate P) buffer_size;
          buffer = buffer_after buffer_size written;
          P1 = called (Call_get_error_message buffer_size) (nstate P) P
      in if result_size < 0 then (Inr ''Failed to retrieve error message'', P1)
         else (decode_or ''No error message available'' buffer, P1))"

section \<open>The object model (graph.py)\<close>

text \<open>
  A Python object is known by its address. A wrapper holds a weak reference to its
  graph: the address of the graph, which resolves through the heap of live graph objects
  and gives \<open>None\<close> once the graph has been reclaimed. Wrappers are kept by value in the
  registries and in the edges that connect them; the fields an edge reads through its
  endpoints (\<open>id\<close>, \<open>_ptr\<close>, \<open>_graph_ref\<close>) are never assigned after construction.
\<close>

type_synonym gid = nat

record vertex =
  v_graph_ref :: gid
  v_ptr :: ptr
  v_id :: string
  v_label :: string
  v_properties :: "(string, pyval) pydict"
  v_disposed :: bool

record edge =
  e_graph_ref :: gid
  e_ptr :: ptr
  e_id :: string
  e_label :: string
  e_out_vertex :: vertex
  e_in_vertex :: vertex
  e_properties :: "(string, pyval) pydict"
  e_disposed :: bool

text \<open>
  \<open>g_self\<close> is the address of the graph object itself, \<open>g_native\<close> the handle held by its
  \<open>NativeGraphHandle\<close>.
\<close>

record tinkergraph =
  g_self :: gid
  g_native :: ptr
  g_vertices :: "(ptr, vertex) pydict"
  g_edges :: "(ptr, edge) pydict"
  g_vertex_id_counter :: nat
  g_closed :: bool

type_synonym heap = "gid \<Rightarrow> tinkergraph option"

text \<open>An argument that the code tests with \<open>isinstance(x, Vertex)\<close>.\<close>

datatype pyobj = Obj_Vertex vertex | Obj_Other pyval

subsection \<open>TinkerGraph: state guard, counts, truth value\<close>

definition TinkerGraph_check_not_closed :: "tinkergraph \<Rightarrow> exc + unit" where
  "TinkerGraph_check_not_closed G =
     (if g_closed G then Inl (Exc TinkerGraphError None) else Inr ())"

definition TinkerGraph_vertex_count ::
  "'n native_lib \<Rightarrow> 'n process \<Rightarrow> tinkergraph \<Rightarrow> (exc + int) \<times> 'n process" where
  "TinkerGraph_vertex_count nt P G =
     (case TinkerGraph_check_not_closed G of
        Inl e \<Rightarrow> (Inl e, P)
      | Inr _ \<Rightarrow> (let (c, P1) = NativeGraphHandle_vertex_count nt P (g_native G) in (Inr c, P1)))"

definition TinkerGraph_edge_count ::
  "'n native_lib \<Rightarrow> 'n process \<Rightarrow> tinkergraph \<Rightarrow> (exc + int) \<times> 'n process" where
  "TinkerGraph_edge_count nt P G =
     (case TinkerGraph_check_not_closed G of
        Inl e \<Rightarrow> (Inl e, P)
      | Inr _ \<Rightarrow> (let (c, P1) = NativeGraphHandle_edge_count nt P (g_native G) in (Inr c, P1)))"

definition TinkerGraph_len ::
  "'n native_lib \<Rightarrow> 'n process \<Rightarrow> tinkergraph \<Rightarrow> (exc + int) \<times> 'n process" where
  "TinkerGraph_len nt P G = TinkerGraph_vertex_count nt P G"

definition TinkerGraph_str ::
  "'n native_lib \<Rightarrow> 'n process \<Rightarrow> tinkergraph \<Rightarrow> (exc + string) \<times> 'n process" where
  "TinkerGraph_str nt P G =
     (case TinkerGraph_vertex_count nt P G of
        (Inl e, P1) \<Rightarrow> (Inl e, P1)
      | (Inr vc, P1) \<Rightarrow>
          (case TinkerGraph_edge_count nt P1 G of
             (Inl e, P2) \<Rightarrow> (Inl e, P2)
           | (Inr ec, P2) \<Rightarrow>
               (Inr (''TinkerGraph(vertices='' @ str_of_int vc @ '', edges='' @ str_of_int ec @ '')''),
                P2)))"

text \<open>
  The class defines \<open>__len__\<close> and no \<open>__bool__\<close>: the truth value of a graph object is
  \<open>len(graph) != 0\<close>, and \<open>len\<close> raises \<open>ValueError\<close> on a negative \<open>__len__\<close>.
\<close>

definition TinkerGraph_bool ::
  "'n native_lib \<Rightarrow> 'n process \<Rightarrow> tinkergraph \<Rightarrow> (exc + bool) \<times> 'n process" where
  "TinkerGraph_bool nt P G =
     (case TinkerGraph_len nt P G of
        (Inl e, P1) \<Rightarrow> (Inl e, P1)
      | (Inr c, P1) \<Rightarrow> if c < 0 then (Inl (Exc ValueError None), P1) else (Inr (c \<noteq> 0), P1))"

text \<open>The truth value of \<open>self._graph()\<close>, which is a graph or \<open>None\<close>.\<close>

definition graph_truthy ::
  "'n native_lib \<Rightarrow> 'n process \<Rightarrow> tinkergraph option \<Rightarrow> (exc + bool) \<times> 'n process" where
  "graph_truthy nt P graph =
     (case graph of None \<Rightarrow> (Inr False, P) | Some G \<Rightarrow> TinkerGraph_bool nt P G)"

subsection \<open>Vertex and Edge\<close>

definition Vertex_graph :: "heap \<Rightarrow> vertex \<Rightarrow> tinkergraph option" where
  "Vertex_graph hp v = hp (v_graph_ref v)"

definition Edge_graph :: "heap \<Rightarrow> edge \<Rightarrow> tinkergraph option" where
  "Edge_graph hp e = hp (e_graph_ref e)"

text \<open>
  The identity of the object a weak reference resolves to: its address, or \<open>None\<close>.
  \<open>TinkerGraph\<close> defines no \<open>__eq__\<close>, so \<open>==\<close> and \<open>!=\<close> on graphs compare identities.
\<close>

definition resolved_id :: "heap \<Rightarrow> gid \<Rightarrow> gid option" where
  "resolved_id hp r = (case hp r of None \<Rightarrow> None | Some G \<Rightarrow> Some r)"

text \<open>\<open>Vertex.__eq__\<close> (both sides are vertices).\<close>

definition Vertex_eq :: "heap \<Rightarrow> vertex \<Rightarrow> vertex \<Rightarrow> bool" where
  "Vertex_eq hp a b =
     (v_id a = v_id b \<and> resolved_id hp (v_graph_ref a) = resolved_id hp (v_graph_ref b))"

text \<open>
  \<open>_cleanup\<close>: \<open>hasattr(graph, '_native')\<close> holds for every constructed graph, and the
  \<open>try ... except: pass\<close> around the native destroy has nothing to catch in this model.
  The truth value of \<open>graph\<close> is taken outside the \<open>try\<close>.
\<close>

definition Vertex_cleanup ::
  "'n native_lib \<Rightarrow> heap \<Rightarrow> 'n process \<Rightarrow> vertex \<Rightarrow> (exc + unit) \<times> vertex \<times> 'n process" where
  "Vertex_cleanup nt hp P v =
     (if \<not> v_disposed v \<and> v_ptr v \<noteq> 0 then
        (case graph_truthy nt P (Vertex_graph hp v) of
           (Inl e, P1) \<Rightarrow> (Inl e, v, P1)
         | (Inr t, P1) \<Rightarrow>
             (Inr (), v\<lparr>v_disposed := True\<rparr>,
              if t then NativeGraphHandle_destroy_vertex nt P1 (v_ptr v) else P1))
      else (Inr (), v, P))"

definition Edge_cleanup ::
  "'n native_lib \<Rightarrow> heap \<Rightarrow> 'n process \<Rightarrow> edge \<Rightarrow> (exc + unit) \<times> edge \<times> 'n process" where
  "Edge_cleanup nt hp P e =
     (if \<not> e_disposed e \<and> e_ptr e \<noteq> 0 then
        (case graph_truthy nt P (Edge_graph hp e) of
           (Inl x, P1) \<Rightarrow> (Inl x, e, P1)
         | (Inr t, P1) \<Rightarrow>
             (Inr (), e\<lparr>e_disposed := True\<rparr>,
              if t then NativeGraphHandle_destroy_edge nt P1 (e_ptr e) else P1))
      else (Inr (), e, P))"

text \<open>
  \<open>_matches_properties\<close>: the loop over \<open>filters.items()\<close> returns \<open>False\<close> at the first
  key that is missing or whose value differs.
\<close>

fun matches_properties :: "(string, pyval) pydict \<Rightarrow> (string, pyval) pydict \<Rightarrow> bool" where
  "matches_properties props [] = True"
| "matches_properties props ((key, val) # filters) =
     (case map_of props key of
        None \<Rightarrow> False
      | Some x \<Rightarrow> if \<not> py_eq x val then False else matches_properties props filters)"

definition Vertex_matches_properties :: "vertex \<Rightarrow> (string, pyval) pydict \<Rightarrow> bool" where
  "Vertex_matches_properties v filters = matches_properties (v_properties v) filters"

definition Edge_matches_properties :: "edge \<Rightarrow> (string, pyval) pydict \<Rightarrow> bool" where
  "Edge_matches_properties e filters = matches_properties (e_properties e) filters"

definition Vertex_get_property :: "vertex \<Rightarrow> string \<Rightarrow> pyval \<Rightarrow> pyval" where
  "Vertex_get_property v key dflt =
     (case map_of (v_properties v) key of None \<Rightarrow> dflt | Some x \<Rightarrow> x)"

definition Vertex_set_property :: "vertex \<Rightarrow> pyval \<Rightarrow> pyval \<Rightarrow> exc + vertex" where
  "Vertex_set_property v key val =
     (case key of
        PStr k \<Rightarrow> Inr (v\<lparr>v_properties := AList.update k val (v_properties v)\<rparr>)
      | _ \<Rightarrow> Inl raise_validation_error)"

definition Vertex_remove_property :: "vertex \<Rightarrow> string \<Rightarrow> pyval \<times> vertex" where
  "Vertex_remove_property v key =
     (case map_of (v_properties v) key of
        None \<Rightarrow> (PNone, v)
      | Some x \<Rightarrow> (x, v\<lparr>v_properties := AList.delete key (v_properties v)\<rparr>))"

text \<open>\<open>[e for e in edges if e.label in labels]\<close>, applied when \<open>labels\<close> is not empty.\<close>

definition label_filter :: "pyval list \<Rightarrow> edge list \<Rightarrow> edge list" where
  "label_filter labels es =
     (if labels \<noteq> [] then filter (\<lambda>e. list_ex (py_eq (PStr (e_label e))) labels) es else es)"

definition Vertex_out_edges ::
  "'n native_lib \<Rightarrow> heap \<Rightarrow> 'n process \<Rightarrow> vertex \<Rightarrow> pyval list \<Rightarrow> (exc + edge list) \<times> 'n process" where
  "Vertex_out_edges nt hp P v labels =
     (case graph_truthy nt P (Vertex_graph hp v) of
        (Inl e, P1) \<Rightarrow> (Inl e, P1)
      | (Inr t, P1) \<Rightarrow>
          (case Vertex_graph hp v of
             Some G \<Rightarrow>
               if t then
                 (Inr (label_filter labels
                         (filter (\<lambda>e. Vertex_eq hp (e_out_vertex e) v) (dict_values (g_edges G)))),
                  P1)
               else (Inr [], P1)
           | None \<Rightarrow> (Inr [], P1)))"

definition Vertex_in_edges ::
  "'n native_lib \<Rightarrow> heap \<Rightarrow> 'n process \<Rightarrow> vertex \<Rightarrow> pyval list \<Rightarrow> (exc + edge list) \<times> 'n process" where
  "Vertex_in_edges nt hp P v labels =
     (case graph_truthy nt P (Vertex_graph hp v) of
        (Inl e, P1) \<Rightarrow> (Inl e, P1)
      | (Inr t, P1) \<Rightarrow>
          (case Vertex_graph hp v of
             Some G \<Rightarrow>
               if t then
                 (Inr (label_filter labels
                         (filter (\<lambda>e. Vertex_eq hp (e_in_vertex e) v) (dict_values (g_edges G)))),
                  P1)
               else (Inr [], P1)
           | None \<Rightarrow> (Inr [], P1)))"

definition Vertex_both_edges ::
  "'n native_lib \<Rightarrow> heap \<Rightarrow> 'n process \<Rightarrow> vertex \<Rightarrow> pyval list \<Rightarrow> (exc + edge list) \<times> 'n process" where
  "Vertex_both_edges nt hp P v labels =
     (case Vertex_out_edges nt hp P v labels of
        (Inl e, P1) \<Rightarrow> (Inl e, P1)
      | (Inr outs, P1) \<Rightarrow>
          (case Vertex_in_edges nt hp P1 v labels of
             (Inl e, P2) \<Rightarrow> (Inl e, P2)
           | (Inr ins, P2) \<Rightarrow> (Inr (outs @ ins), P2)))"

definition Vertex_out_vertices ::
  "'n native_lib \<Rightarrow> heap \<Rightarrow> 'n process \<Rightarrow> vertex \<Rightarrow> pyval list \<Rightarrow> (exc + vertex list) \<times> 'n process" where
  "Vertex_out_vertices nt hp P v labels =
     (case Vertex_out_edges nt hp P v labels of
        (Inl e, P1) \<Rightarrow> (Inl e, P1)
      | (Inr es, P1) \<Rightarrow> (Inr (map e_in_vertex es), P1))"

definition Vertex_in_vertices ::
  "'n native_lib \<Rightarrow> heap \<Rightarrow> 'n process \<Rightarrow> vertex \<Rightarrow> pyval list \<Rightarrow> (exc + vertex list) \<times> 'n process" where
  "Vertex_in_vertices nt hp P v labels =
     (case Vertex_in_edges nt hp P v labels of
        (Inl e, P1) \<Rightarrow> (Inl e, P1)
      | (Inr es, P1) \<Rightarrow> (Inr (map e_out_vertex es), P1))"

definition Vertex_both_vertices ::
  "'n native_lib \<Rightarrow> heap \<Rightarrow> 'n process \<Rightarrow> vertex \<Rightarrow> pyval list \<Rightarrow> (exc + vertex list) \<times> 'n process" where
  "Vertex_both_vertices nt hp P v labels =
     (case Vertex_out_vertices nt hp P v labels of
        (Inl e, P1) \<Rightarrow> (Inl e, P1)
      | (Inr outs, P1) \<Rightarrow>
          (case Vertex_in_vertices nt hp P1 v labels of
             (Inl e, P2) \<Rightarrow> (Inl e, P2)
           | (Inr ins, P2) \<Rightarrow> (Inr (outs @ ins), P2)))"

subsection \<open>TinkerGraph: the operations\<close>

text \<open>
  A method of a graph runs on the graph \<open>G\<close> itself, the process \<open>P\<close> and the other live
  graph objects \<open>env\<close>; the weak references of wrappers resolve in \<open>heap_with env G\<close>.
  Each method gives back its result or the exception raised, with the graph and the
  process as they are at that moment.
\<close>

definition heap_with :: "heap \<Rightarrow> tinkergraph \<Rightarrow> heap" where
  "heap_with env G = env(g_self G := Some G)"

definition dict_del :: "'k \<Rightarrow> ('k, 'v) pydict \<Rightarrow> exc + ('k, 'v) pydict" where
  "dict_del k d = (if dict_contains k d then Inr (AList.delete k d) else Inl (Exc KeyError None))"

text \<open>
  \<open>except TinkerGraphNativeError as e: raise C(...) from e\<close>; any other exception
  passes through.
\<close>

fun exc_class_of :: "exc \<Rightarrow> exc_class" where
  "exc_class_of (Exc c cause) = c"

definition reraise_native :: "exc_class \<Rightarrow> exc \<Rightarrow> exc" where
  "reraise_native c e =
     (if catches TinkerGraphNativeError (exc_class_of e) then Exc c (Some e) else e)"

text \<open>The label after validation and defaulting: a string, \<open>"vertex"\<close> for \<open>None\<close>.\<close>

fun label_or_default :: "pyval \<Rightarrow> string" where
  "label_or_default (PStr s) = s"
| "label_or_default _ = ''vertex''"

fun optional_str :: "pyval \<Rightarrow> string option" where
  "optional_str (PStr s) = Some s"
| "optional_str _ = None"

text \<open>
  The id of a new vertex: the one given, else the one the native side reports, else
  (whatever the retrieval raised) the internal counter, which is then advanced.
\<close>

definition new_vertex_id ::
  "'n native_lib \<Rightarrow> tinkergraph \<Rightarrow> 'n process \<Rightarrow> pyval \<Rightarrow> ptr
     \<Rightarrow> string \<times> tinkergraph \<times> 'n process" where
  "new_vertex_id nt G P1 vertex_id vertex_ptr =
     (case optional_str vertex_id of
        Some s \<Rightarrow> (s, G, P1)
      | None \<Rightarrow>
          (case NativeGraphHandle_get_vertex_id nt P1 vertex_ptr 256 of
             (Inr s, P2) \<Rightarrow> (s, G, P2)
           | (Inl e, P2) \<Rightarrow>
               (str_of_nat (g_vertex_id_counter G),
                G\<lparr>g_vertex_id_counter := g_vertex_id_counter G + 1\<rparr>, P2)))"

definition TinkerGraph_add_vertex ::
  "'n native_lib \<Rightarrow> heap \<Rightarrow> tinkergraph \<Rightarrow> 'n process \<Rightarrow> pyval \<Rightarrow> pyval \<Rightarrow> (string, pyval) pydict
     \<Rightarrow> (exc + vertex) \<times> tinkergraph \<times> 'n process" where
  "TinkerGraph_add_vertex nt env G P label vertex_id properties =
     (case TinkerGraph_check_not_closed G of
        Inl e \<Rightarrow> (Inl e, G, P)
      | Inr _ \<Rightarrow>
          if label \<noteq> PNone \<and> \<not> isinstance_str label then (Inl raise_validation_error, G, P)
          else if vertex_id \<noteq> PNone \<and> \<not> isinstance_str vertex_id
          then (Inl raise_validation_error, G, P)
          else
            (let label1 = label_or_default label;
                 all_properties =
                   (if label1 \<noteq> ''vertex''
                    then AList.update ''label'' (PStr label1) properties else properties);
                 (r, P1) =
                   (if all_properties \<noteq> []
                    then NativeGraphHandle_add_vertex_with_properties nt P (g_native G)
                           (optional_str vertex_id) all_properties
                    else NativeGraphHandle_add_vertex nt P (g_native G) (optional_str vertex_id))
             in case r of
                  Inl e \<Rightarrow> (Inl (reraise_native TinkerGraphVertexError e), G, P1)
                | Inr vertex_ptr \<Rightarrow>
                    (let (vid, G1, P2) = new_vertex_id nt G P1 vertex_id vertex_ptr;
                         vertex = \<lparr>v_graph_ref = g_self G, v_ptr = vertex_ptr, v_id = vid,
                                   v_label = label1, v_properties = properties,
                                   v_disposed = False\<rparr>
                     in (Inr vertex,
                         G1\<lparr>g_vertices := AList.update vertex_ptr vertex (g_vertices G1)\<rparr>, P2))))"

text \<open>
  \<open>out_vertex._graph() != self\<close>: the weak reference does not resolve to this very
  graph object.
\<close>

definition not_this_graph :: "heap \<Rightarrow> tinkergraph \<Rightarrow> vertex \<Rightarrow> bool" where
  "not_this_graph env G v =
     (resolved_id (heap_with env G) (v_graph_ref v) \<noteq> Some (g_self G))"

definition TinkerGraph_add_edge ::
  "'n native_lib \<Rightarrow> heap \<Rightarrow> tinkergraph \<Rightarrow> 'n process \<Rightarrow> pyval \<Rightarrow> pyobj \<Rightarrow> pyobj \<Rightarrow> string option
     \<Rightarrow> (string, pyval) pydict \<Rightarrow> (exc + edge) \<times> tinkergraph \<times> 'n process" where
  "TinkerGraph_add_edge nt env G P label out_vertex in_vertex edge_id properties =
     (case TinkerGraph_check_not_closed G of
        Inl e \<Rightarrow> (Inl e, G, P)
      | Inr _ \<Rightarrow>
          (case label of
             PStr lbl \<Rightarrow>
               (case out_vertex of
                  Obj_Other x \<Rightarrow> (Inl raise_validation_error, G, P)
                | Obj_Vertex ov \<Rightarrow>
                    (case in_vertex of
                       Obj_Other y \<Rightarrow> (Inl raise_validation_error, G, P)
                     | Obj_Vertex iv \<Rightarrow>
                         if not_this_graph env G ov \<or> not_this_graph env G iv
                         then (Inl (Exc TinkerGraphValidationError None), G, P)
                         else
                           (let (r, P1) =
                                  (if properties \<noteq> []
                                   then NativeGraphHandle_add_edge_with_properties nt P (g_native G)
                                          lbl (v_ptr ov) (v_ptr iv) properties
                                   else NativeGraphHandle_add_edge nt P (g_native G)
                                          lbl (v_ptr ov) (v_ptr iv))
                            in case r of
                                 Inl e \<Rightarrow> (Inl (reraise_native TinkerGraphEdgeError e), G, P1)
                               | Inr edge_ptr \<Rightarrow>
                                   (let eid = (case edge_id of
                                                 Some s \<Rightarrow> s
                                               | None \<Rightarrow> v_id ov @ ''-'' @ lbl @ ''->'' @ v_id iv);
                                        edge = \<lparr>e_graph_ref = g_self G, e_ptr = edge_ptr,
                                                e_id = eid, e_label = lbl, e_out_vertex = ov,
                                                e_in_vertex = iv, e_properties = properties,
                                                e_disposed = False\<rparr>
                                    in (Inr edge,
                                        G\<lparr>g_edges := AList.update edge_ptr edge (g_edges G)\<rparr>,
                                        P1)))))
           | _ \<Rightarrow> (Inl raise_validation_error, G, P)))"

definition TinkerGraph_vertices ::
  "tinkergraph \<Rightarrow> (string, pyval) pydict \<Rightarrow> exc + vertex list" where
  "TinkerGraph_vertices G properties =
     (case TinkerGraph_check_not_closed G of
        Inl e \<Rightarrow> Inl e
      | Inr _ \<Rightarrow>
          (let vertices = dict_values (g_vertices G)
           in if properties \<noteq> []
              then Inr (filter (\<lambda>v. Vertex_matches_properties v properties) vertices)
              else Inr vertices))"

definition TinkerGraph_edges ::
  "tinkergraph \<Rightarrow> (string, pyval) pydict \<Rightarrow> exc + edge list" where
  "TinkerGraph_edges G properties =
     (case TinkerGraph_check_not_closed G of
        Inl e \<Rightarrow> Inl e
      | Inr _ \<Rightarrow>
          (let edges = dict_values (g_edges G)
           in if properties \<noteq> []
              then Inr (filter (\<lambda>e. Edge_matches_properties e properties) edges)
              else Inr edges))"

definition TinkerGraph_get_vertex :: "tinkergraph \<Rightarrow> string \<Rightarrow> exc + vertex option" where
  "TinkerGraph_get_vertex G vertex_id =
     (case TinkerGraph_check_not_closed G of
        Inl e \<Rightarrow> Inl e
      | Inr _ \<Rightarrow> Inr (find (\<lambda>v. v_id v = vertex_id) (dict_values (g_vertices G))))"

definition TinkerGraph_remove_edge ::
  "'n native_lib \<Rightarrow> heap \<Rightarrow> tinkergraph \<Rightarrow> 'n process \<Rightarrow> edge
     \<Rightarrow> (exc + unit) \<times> tinkergraph \<times> 'n process" where
  "TinkerGraph_remove_edge nt env G P e =
     (case TinkerGraph_check_not_closed G of
        Inl x \<Rightarrow> (Inl x, G, P)
      | Inr _ \<Rightarrow>
          if dict_contains (e_ptr e) (g_edges G) then
            (case Edge_cleanup nt (heap_with env G) P e of
               (Inl x, e1, P1) \<Rightarrow> (Inl x, G, P1)
             | (Inr _, e1, P1) \<Rightarrow>
                 (case dict_del (e_ptr e) (g_edges G) of
                    Inl x \<Rightarrow> (Inl x, G, P1)
                  | Inr d \<Rightarrow> (Inr (), G\<lparr>g_edges := d\<rparr>, P1)))
          else (Inr (), G, P))"

text \<open>\<open>for edge in edges: self.remove_edge(edge)\<close>, stopping at the first exception.\<close>

fun remove_edges ::
  "'n native_lib \<Rightarrow> heap \<Rightarrow> tinkergraph \<Rightarrow> 'n process \<Rightarrow> edge list
     \<Rightarrow> (exc + unit) \<times> tinkergraph \<times> 'n process" where
  "remove_edges nt env G P [] = (Inr (), G, P)"
| "remove_edges nt env G P (e # es) =
     (case TinkerGraph_remove_edge nt env G P e of
        (Inl x, G1, P1) \<Rightarrow> (Inl x, G1, P1)
      | (Inr _, G1, P1) \<Rightarrow> remove_edges nt env G1 P1 es)"

text \<open>
  The cascade of \<open>remove_vertex\<close> selects with \<open>==\<close> on vertices, that is with
  \<open>Vertex.__eq__\<close>.
\<close>

definition touches :: "heap \<Rightarrow> vertex \<Rightarrow> edge \<Rightarrow> bool" where
  "touches hp v e = (Vertex_eq hp (e_out_vertex e) v \<or> Vertex_eq hp (e_in_vertex e) v)"

text \<open>
  The list \<open>edges_to_remove\<close> of \<open>remove_vertex\<close>: the registered edges \<open>e\<close> with
  \<open>e.out_vertex == vertex or e.in_vertex == vertex\<close>, in registry order.
\<close>

definition edges_to_remove :: "heap \<Rightarrow> tinkergraph \<Rightarrow> vertex \<Rightarrow> edge list" where
  "edges_to_remove env G v = filter (touches (heap_with env G) v) (dict_values (g_edges G))"

definition TinkerGraph_remove_vertex ::
  "'n native_lib \<Rightarrow> heap \<Rightarrow> tinkergraph \<Rightarrow> 'n process \<Rightarrow> vertex
     \<Rightarrow> (exc + unit) \<times> tinkergraph \<times> 'n process" where
  "TinkerGraph_remove_vertex nt env G P v =
     (case TinkerGraph_check_not_closed G of
        Inl x \<Rightarrow> (Inl x, G, P)
      | Inr _ \<Rightarrow>
          if dict_contains (v_ptr v) (g_vertices G) then
            (case remove_edges nt env G P (edges_to_remove env G v) of
               (Inl x, G1, P1) \<Rightarrow> (Inl x, G1, P1)
             | (Inr _, G1, P1) \<Rightarrow>
                 (case Vertex_cleanup nt (heap_with env G1) P1 v of
                    (Inl x, v1, P2) \<Rightarrow> (Inl x, G1, P2)
                  | (Inr _, v1, P2) \<Rightarrow>
                      (case dict_del (v_ptr v) (g_vertices G1) of
                         Inl x \<Rightarrow> (Inl x, G1, P2)
                       | Inr d \<Rightarrow> (Inr (), G1\<lparr>g_vertices := d\<rparr>, P2))))
          else (Inr (), G, P))"

fun remove_vertices ::
  "'n native_lib \<Rightarrow> heap \<Rightarrow> tinkergraph \<Rightarrow> 'n process \<Rightarrow> vertex list
     \<Rightarrow> (exc + unit) \<times> tinkergraph \<times> 'n process" where
  "remove_vertices nt env G P [] = (Inr (), G, P)"
| "remove_vertices nt env G P (v # vs) =
     (case TinkerGraph_remove_vertex nt env G P v of
        (Inl x, G1, P1) \<Rightarrow> (Inl x, G1, P1)
      | (Inr _, G1, P1) \<Rightarrow> remove_vertices nt env G1 P1 vs)"

definition TinkerGraph_clear ::
  "'n native_lib \<Rightarrow> heap \<Rightarrow> tinkergraph \<Rightarrow> 'n process \<Rightarrow> (exc + unit) \<times> tinkergraph \<times> 'n process" where
  "TinkerGraph_clear nt env G P =
     (case TinkerGraph_check_not_closed G of
        Inl x \<Rightarrow> (Inl x, G, P)
      | Inr _ \<Rightarrow>
          (case remove_edges nt env G P (dict_values (g_edges G)) of
             (Inl x, G1, P1) \<Rightarrow> (Inl x, G1, P1)
           | (Inr _, G1, P1) \<Rightarrow> remove_vertices nt env G1 P1 (dict_values (g_vertices G1))))"

text \<open>
  The two loops of \<open>close\<close> call \<open>_cleanup\<close> on the registered wrappers in place:
  \<open>seen\<close> are the entries already visited, and the registry of \<open>G\<close> is \<open>seen\<close> followed by
  the entries still to visit.
\<close>

fun cleanup_vertices ::
  "'n native_lib \<Rightarrow> heap \<Rightarrow> tinkergraph \<Rightarrow> 'n process \<Rightarrow> (ptr, vertex) pydict \<Rightarrow> (ptr, vertex) pydict
     \<Rightarrow> (exc + unit) \<times> tinkergraph \<times> 'n process" where
  "cleanup_vertices nt env G P seen [] = (Inr (), G, P)"
| "cleanup_vertices nt env G P seen ((k, v) # rest) =
     (case Vertex_cleanup nt (heap_with env G) P v of
        (Inl x, v1, P1) \<Rightarrow> (Inl x, G, P1)
      | (Inr _, v1, P1) \<Rightarrow>
          cleanup_vertices nt env (G\<lparr>g_vertices := seen @ (k, v1) # rest\<rparr>) P1
            (seen @ [(k, v1)]) rest)"

fun cleanup_edges ::
  "'n native_lib \<Rightarrow> heap \<Rightarrow> tinkergraph \<Rightarrow> 'n process \<Rightarrow> (ptr, edge) pydict \<Rightarrow> (ptr, edge) pydict
     \<Rightarrow> (exc + unit) \<times> tinkergraph \<times> 'n process" where
  "cleanup_edges nt env G P seen [] = (Inr (), G, P)"
| "cleanup_edges nt env G P seen ((k, e) # rest) =
     (case Edge_cleanup nt (heap_with env G) P e of
        (Inl x, e1, P1) \<Rightarrow> (Inl x, G, P1)
      | (Inr _, e1, P1) \<Rightarrow>
          cleanup_edges nt env (G\<lparr>g_edges := seen @ (k, e1) # rest\<rparr>) P1
            (seen @ [(k, e1)]) rest)"

definition TinkerGraph_close ::
  "'n native_lib \<Rightarrow> heap \<Rightarrow> tinkergraph \<Rightarrow> 'n process \<Rightarrow> (exc + unit) \<times> tinkergraph \<times> 'n process" where
  "TinkerGraph_close nt env G P =
     (if \<not> g_closed G then
        (case cleanup_vertices nt env G P [] (g_vertices G) of
           (Inl x, G1, P1) \<Rightarrow> (Inl x, G1, P1)
         | (Inr _, G1, P1) \<Rightarrow>
             (case cleanup_edges nt env G1 P1 [] (g_edges G1) of
                (Inl x, G2, P2) \<Rightarrow> (Inl x, G2, P2)
              | (Inr _, G2, P2) \<Rightarrow>
                  (Inr (), G2\<lparr>g_vertices := [], g_edges := [], g_closed := True\<rparr>, P2)))
      else (Inr (), G, P))"

subsection \<open>Construction\<close>

definition NativeGraphHandle_init :: "'n native_lib \<Rightarrow> 'n process \<Rightarrow> (exc + ptr) \<times> 'n process" where
  "NativeGraphHandle_init nt P =
     (let (p, n) = tinkergraph_create nt (nstate P);
          P1 = called Call_create n P
      in if p = 0 then (Inl raise_native_error, P1) else (Inr p, P1))"

text \<open>\<open>TinkerGraph()\<close>; \<open>addr\<close> is the address the new object gets.\<close>

definition TinkerGraph_init ::
  "'n native_lib \<Rightarrow> 'n process \<Rightarrow> gid \<Rightarrow> (exc + tinkergraph) \<times> 'n process" where
  "TinkerGraph_init nt P addr =
     (case NativeGraphHandle_init nt P of
        (Inl e, P1) \<Rightarrow> (Inl (reraise_native TinkerGraphError e), P1)
      | (Inr h, P1) \<Rightarrow>
          (Inr \<lparr>g_self = addr, g_native = h, g_vertices = [], g_edges = [],
                g_vertex_id_counter = 0, g_closed = False\<rparr>, P1))"

section \<open>A native engine after the specification\<close>

text \<open>
  Modelled from the spec: the native function table, whose implementation is not among
  the Python sources. The specification describes it as entry points on opaque handles
  (create and destroy graph, add and destroy vertex, add and destroy edge, counts, id and
  label retrieval, last-error retrieval); an add returns a handle or the null handle; a
  count is the number of elements the graph holds (the authoritative count, equal to the
  size of the host registry under normal operation); a string retrieval writes up to \<open>N\<close>
  bytes into the buffer and returns the actual length, or a negative value on failure.
  The engine keeps, per live element, its handle, its graph and its id or label. Handles
  are fresh and not null. Property batches cannot be read back through any entry point
  and are not stored. A vertex added without an id is given the decimal of its handle.
\<close>

record native_state =
  ns_graphs :: "ptr list"
  ns_vertices :: "(ptr, ptr \<times> string) pydict"
  ns_edges :: "(ptr, ptr \<times> string \<times> ptr \<times> ptr) pydict"
  ns_next :: ptr
  ns_error :: string

definition owned_by :: "ptr \<Rightarrow> (ptr, ptr \<times> 'a) pydict \<Rightarrow> (ptr, ptr \<times> 'a) pydict" where
  "owned_by g xs = filter (\<lambda>x. fst (snd x) = g) xs"

definition sn_create :: "native_state \<Rightarrow> ptr \<times> native_state" where
  "sn_create n =
     (let h = Suc (ns_next n) in (h, n\<lparr>ns_graphs := ns_graphs n @ [h], ns_next := h\<rparr>))"

definition sn_destroy :: "native_state \<Rightarrow> ptr \<Rightarrow> native_state" where
  "sn_destroy n g =
     n\<lparr>ns_graphs := removeAll g (ns_graphs n),
       ns_vertices := filter (\<lambda>x. fst (snd x) \<noteq> g) (ns_vertices n),
       ns_edges := filter (\<lambda>x. fst (snd x) \<noteq> g) (ns_edges n)\<rparr>"

definition sn_add_vertex :: "native_state \<Rightarrow> ptr \<Rightarrow> string option \<Rightarrow> ptr \<times> native_state" where
  "sn_add_vertex n g vid =
     (if g \<in> set (ns_graphs n) then
        (let h = Suc (ns_next n);
             name = (case vid of Some s \<Rightarrow> s | None \<Rightarrow> str_of_nat h)
         in (h, n\<lparr>ns_vertices := ns_vertices n @ [(h, g, name)], ns_next := h\<rparr>))
      else (0, n))"

definition sn_add_vertex_with_properties ::
  "native_state \<Rightarrow> ptr \<Rightarrow> string option \<Rightarrow> string list \<Rightarrow> string list \<Rightarrow> int
     \<Rightarrow> ptr \<times> native_state" where
  "sn_add_vertex_with_properties n g vid keys vals cnt = sn_add_vertex n g vid"

definition sn_add_edge :: "native_state \<Rightarrow> ptr \<Rightarrow> string \<Rightarrow> ptr \<Rightarrow> ptr \<Rightarrow> ptr \<times> native_state" where
  "sn_add_edge n g label out_v in_v =
     (if g \<in> set (ns_graphs n)
         \<and> out_v \<in> fst ` set (owned_by g (ns_vertices n))
         \<and> in_v \<in> fst ` set (owned_by g (ns_vertices n))
      then
        (let h = Suc (ns_next n)
         in (h, n\<lparr>ns_edges := ns_edges n @ [(h, g, label, out_v, in_v)], ns_next := h\<rparr>))
      else (0, n))"

definition sn_add_edge_with_properties ::
  "native_state \<Rightarrow> ptr \<Rightarrow> string \<Rightarrow> ptr \<Rightarrow> ptr \<Rightarrow> string list \<Rightarrow> string list \<Rightarrow> int
     \<Rightarrow> ptr \<times> native_state" where
  "sn_add_edge_with_properties n g label out_v in_v keys vals cnt = sn_add_edge n g label out_v in_v"

definition sn_vertex_count :: "native_state \<Rightarrow> ptr \<Rightarrow> int" where
  "sn_vertex_count n g = int (length (owned_by g (ns_vertices n)))"

definition sn_edge_count :: "native_state \<Rightarrow> ptr \<Rightarrow> int" where
  "sn_edge_count n g = int (length (owned_by g (ns_edges n)))"

definition sn_vertex_id :: "native_state \<Rightarrow> ptr \<Rightarrow> nat \<Rightarrow> int \<times> string" where
  "sn_vertex_id n h N =
     (case map_of (ns_vertices n) h of
        None \<Rightarrow> (- 1, [])
      | Some (g, name) \<Rightarrow> (int (length name), take N name))"

definition sn_edge_label :: "native_state \<Rightarrow> ptr \<Rightarrow> nat \<Rightarrow> int \<times> string" where
  "sn_edge_label n h N =
     (case map_of (ns_edges n) h of
        None \<Rightarrow> (- 1, [])
      | Some (g, label, out_v, in_v) \<Rightarrow> (int (length label), take N label))"

definition sn_destroy_vertex :: "native_state \<Rightarrow> ptr \<Rightarrow> native_state" where
  "sn_destroy_vertex n h = n\<lparr>ns_vertices := AList.delete h (ns_vertices n)\<rparr>"

definition sn_destroy_edge :: "native_state \<Rightarrow> ptr \<Rightarrow> native_state" where
  "sn_destroy_edge n h = n\<lparr>ns_edges := AList.delete h (ns_edges n)\<rparr>"

definition sn_get_error_message :: "native_state \<Rightarrow> nat \<Rightarrow> int \<times> string" where
  "sn_get_error_message n N = (int (length (ns_error n)), take N (ns_error n))"

definition spec_native :: "native_state native_lib" where
  "spec_native =
     \<lparr>tinkergraph_create = sn_create,
      tinkergraph_destroy = sn_destroy,
      tinkergraph_add_vertex = sn_add_vertex,
      tinkergraph_add_vertex_with_properties = sn_add_vertex_with_properties,
      tinkergraph_add_edge = sn_add_edge,
      tinkergraph_add_edge_with_properties = sn_add_edge_with_properties,
      tinkergraph_vertex_count = sn_vertex_count,
      tinkergraph_edge_count = sn_edge_count,
      tinkergraph_vertex_id = sn_vertex_id,
      tinkergraph_edge_label = sn_edge_label,
      tinkergraph_destroy_vertex = sn_destroy_vertex,
      tinkergraph_destroy_edge = sn_destroy_edge,
      tinkergraph_get_error_message = sn_get_error_message\<rparr>"

section \<open>Well-formed states\<close>

text \<open>
  What \<open>add_vertex\<close> and \<open>add_edge\<close> establish for the registries of a graph: a wrapper
  is registered under its own handle, the handle is not null, the wrapper is not disposed
  and refers back to this graph.
\<close>

definition wrappers_ok :: "tinkergraph \<Rightarrow> bool" where
  "wrappers_ok G =
     (distinct (map fst (g_vertices G)) \<and> distinct (map fst (g_edges G))
      \<and> (\<forall>x \<in> set (g_vertices G).
            v_ptr (snd x) = fst x \<and> fst x \<noteq> 0 \<and> \<not> v_disposed (snd x)
            \<and> v_graph_ref (snd x) = g_self G)
      \<and> (\<forall>x \<in> set (g_edges G).
            e_ptr (snd x) = fst x \<and> fst x \<noteq> 0 \<and> \<not> e_disposed (snd x)
            \<and> e_graph_ref (snd x) = g_self G))"

text \<open>
  The registries mirror the engine: the live native elements of the graph's native handle
  are exactly the registered handles (the data-model invariant of the specification).
\<close>

definition in_sync :: "tinkergraph \<Rightarrow> native_state \<Rightarrow> bool" where
  "in_sync G n =
     (distinct (map fst (ns_vertices n)) \<and> distinct (map fst (ns_edges n))
      \<and> fst ` set (owned_by (g_native G) (ns_vertices n)) = fst ` set (g_vertices G)
      \<and> fst ` set (owned_by (g_native G) (ns_edges n)) = fst ` set (g_edges G))"

definition registered_vertex :: "tinkergraph \<Rightarrow> vertex \<Rightarrow> bool" where
  "registered_vertex G v = (map_of (g_vertices G) (v_ptr v) = Some v)"

text \<open>
  The endpoints of a registered edge are vertices of this graph that are still
  registered: \<open>add_edge\<close> takes them from the registry and \<open>remove_vertex\<close> removes the
  edges of a vertex with it. An endpoint is the wrapper registered under its handle; the
  id, which no operation changes, is what the cascade reads of it.
\<close>

definition endpoint_ok :: "tinkergraph \<Rightarrow> vertex \<Rightarrow> bool" where
  "endpoint_ok G u =
     (v_graph_ref u = g_self G
      \<and> (case map_of (g_vertices G) (v_ptr u) of None \<Rightarrow> False | Some w \<Rightarrow> v_id w = v_id u))"

definition endpoints_ok :: "tinkergraph \<Rightarrow> bool" where
  "endpoints_ok G =
     (\<forall>x \<in> set (g_edges G).
        endpoint_ok G (e_out_vertex (snd x)) \<and> endpoint_ok G (e_in_vertex (snd x)))"




text \<open>
  The engine hands out increasing handles: every handle in use is at most \<open>ns_next\<close>, and no
  two live elements share one. \<open>graph_ok\<close> collects what holds of an open graph between
  two operations on it.
\<close>

definition engine_ok :: "native_state \<Rightarrow> bool" where
  "engine_ok n =
     (distinct (map fst (ns_vertices n)) \<and> distinct (map fst (ns_edges n))
      \<and> (\<forall>x \<in> set (ns_vertices n). fst x \<le> ns_next n \<and> fst (snd x) \<le> ns_next n)
      \<and> (\<forall>x \<in> set (ns_edges n). fst x \<le> ns_next n \<and> fst (snd x) \<le> ns_next n)
      \<and> (\<forall>g \<in> set (ns_graphs n). g \<le> ns_next n))"

definition graph_ok :: "tinkergraph \<Rightarrow> native_state \<Rightarrow> bool" where
  "graph_ok G n =
     (\<not> g_closed G \<and> wrappers_ok G \<and> endpoints_ok G \<and> in_sync G n \<and> engine_ok n
      \<and> g_native G \<in> set (ns_graphs n))"

section \<open>A concrete run\<close>

text \<open>
  Scenario A of the specification on the engine above: graph \<open>G\<close> at address 1 with
  vertices alice (\<open>name="Alice"\<close>) and bob, both labelled \<open>"person"\<close>, and the edge
  \<open>knows\<close> from alice to bob (\<open>since=2018\<close>); then a second graph at address 2 with one
  vertex added without arguments.
\<close>

definition ex_alice :: vertex where
  "ex_alice = \<lparr>v_graph_ref = 1, v_ptr = 2, v_id = ''alice'', v_label = ''person'',
               v_properties = [(''name'', PStr ''Alice'')], v_disposed = False\<rparr>"

definition ex_bob :: vertex where
  "ex_bob = \<lparr>v_graph_ref = 1, v_ptr = 3, v_id = ''bob'', v_label = ''person'',
             v_properties = [], v_disposed = False\<rparr>"

definition ex_knows :: edge where
  "ex_knows = \<lparr>e_graph_ref = 1, e_ptr = 4, e_id = ''alice-knows->bob'', e_label = ''knows'',
               e_out_vertex = ex_alice, e_in_vertex = ex_bob,
               e_properties = [(''since'', PInt 2018)], e_disposed = False\<rparr>"

definition ex_G :: tinkergraph where
  "ex_G = \<lparr>g_self = 1, g_native = 1, g_vertices = [(2, ex_alice), (3, ex_bob)],
           g_edges = [(4, ex_knows)], g_vertex_id_counter = 0, g_closed = False\<rparr>"

definition ex_other :: vertex where
  "ex_other = \<lparr>v_graph_ref = 2, v_ptr = 6, v_id = ''6'', v_label = ''vertex'',
               v_properties = [], v_disposed = False\<rparr>"

definition ex_G2 :: tinkergraph where
  "ex_G2 = \<lparr>g_self = 2, g_native = 5, g_vertices = [(6, ex_other)], g_edges = [],
            g_vertex_id_counter = 0, g_closed = False\<rparr>"

definition ex_calls :: "native_call list" where
  "ex_calls =
     [Call_create,
      Call_add_vertex_with_properties 1 (Some ''alice'') [''name'', ''label'']
        [''Alice'', ''person''] 2,
      Call_add_vertex_with_properties 1 (Some ''bob'') [''label''] [''person''] 1,
      Call_add_edge_with_properties 1 ''knows'' 2 3 [''since''] [''2018''] 1,
      Call_create,
      Call_add_vertex 5 None,
      Call_vertex_id 6 256]"

definition ex_native :: native_state where
  "ex_native = \<lparr>ns_graphs = [1, 5],
                ns_vertices = [(2, 1, ''alice''), (3, 1, ''bob''), (6, 5, ''6'')],
                ns_edges = [(4, 1, ''knows'', 2, 3)], ns_next = 6, ns_error = []\<rparr>"

definition ex_P :: "native_state process" where
  "ex_P = \<lparr>nstate = ex_native, calls = ex_calls\<rparr>"

text \<open>The other live graph objects, as \<open>G\<close> and as the second graph see them.\<close>

definition ex_env :: heap where
  "ex_env = (\<lambda>r. None)(2 := Some ex_G2)"

definition ex_env2 :: heap where
  "ex_env2 = (\<lambda>r. None)(1 := Some ex_G)"

definition ex_P0 :: "native_state process" where
  "ex_P0 = \<lparr>nstate = \<lparr>ns_graphs = [], ns_vertices = [], ns_edges = [], ns_next = 0,
                       ns_error = []\<rparr>,
            calls = []\<rparr>"

text \<open>The fresh graph at address 1, and the graph after \<open>add_vertex\<close> for alice.\<close>

definition ex_G0 :: tinkergraph where
  "ex_G0 = \<lparr>g_self = 1, g_native = 1, g_vertices = [], g_edges = [],
            g_vertex_id_counter = 0, g_closed = False\<rparr>"

definition ex_P1 :: "native_state process" where
  "ex_P1 = \<lparr>nstate = \<lparr>ns_graphs = [1], ns_vertices = [], ns_edges = [], ns_next = 1,
                       ns_error = []\<rparr>,
            calls = [Call_create]\<rparr>"

definition ex_G1 :: tinkergraph where
  "ex_G1 = \<lparr>g_self = 1, g_native = 1, g_vertices = [(2, ex_alice)], g_edges = [],
            g_vertex_id_counter = 0, g_closed = False\<rparr>"

definition ex_P2 :: "native_state process" where
  "ex_P2 = \<lparr>nstate = \<lparr>ns_graphs = [1], ns_vertices = [(2, 1, ''alice'')], ns_edges = [],
                       ns_next = 2, ns_error = []\<rparr>,
            calls = [Call_create,
                     Call_add_vertex_with_properties 1 (Some ''alice'') [''name'', ''label'']
                       [''Alice'', ''person''] 2]\<rparr>"

text \<open>The state after \<open>G.close()\<close>.\<close>

definition ex_G_closed :: tinkergraph where
  "ex_G_closed = \<lparr>g_self = 1, g_native = 1, g_vertices = [], g_edges = [],
                  g_vertex_id_counter = 0, g_closed = True\<rparr>"

definition ex_P_closed :: "native_state process" where
  "ex_P_closed =
     \<lparr>nstate = \<lparr>ns_graphs = [1, 5], ns_vertices = [(6, 5, ''6'')],
                ns_edges = [(4, 1, ''knows'', 2, 3)], ns_next = 6, ns_error = []\<rparr>,
      calls = ex_calls @
        [Call_vertex_count 1, Call_destroy_vertex 2, Call_vertex_count 1,
         Call_destroy_vertex 3, Call_vertex_count 1]\<rparr>"

text \<open>
  A second run, from the empty engine: \<open>add_vertex(vertex_id="")\<close> twice, giving \<open>a\<close> and
  \<open>c\<close>, then \<open>add_vertex(vertex_id="d")\<close> and \<open>add_edge("r", c, d)\<close>. The empty id is sent to
  the engine as null, so the engine names the two vertices itself, while both wrappers
  keep the id \<open>""\<close>. No other graph is alive. \<open>dup_G1\<close> and \<open>dup_P1\<close> are the graph and
  the process after \<open>remove_vertex(a)\<close>.
\<close>

definition dup_a :: vertex where
  "dup_a = \<lparr>v_graph_ref = 1, v_ptr = 2, v_id = [], v_label = ''vertex'',
             v_properties = [], v_disposed = False\<rparr>"

definition dup_c :: vertex where
  "dup_c = \<lparr>v_graph_ref = 1, v_ptr = 3, v_id = [], v_label = ''vertex'',
             v_properties = [], v_disposed = False\<rparr>"

definition dup_d :: vertex where
  "dup_d = \<lparr>v_graph_ref = 1, v_ptr = 4, v_id = ''d'', v_label = ''vertex'',
             v_properties = [], v_disposed = False\<rparr>"

definition dup_r :: edge where
  "dup_r = \<lparr>e_graph_ref = 1, e_ptr = 5, e_id = ''-r->d'', e_label = ''r'',
             e_out_vertex = dup_c, e_in_vertex = dup_d, e_properties = [],
             e_disposed = False\<rparr>"

definition dup_G :: tinkergraph where
  "dup_G = \<lparr>g_self = 1, g_native = 1, g_vertices = [(2, dup_a), (3, dup_c), (4, dup_d)],
            g_edges = [(5, dup_r)], g_vertex_id_counter = 0, g_closed = False\<rparr>"

definition dup_calls :: "native_call list" where
  "dup_calls = [Call_create, Call_add_vertex 1 None, Call_add_vertex 1 None,
                Call_add_vertex 1 (Some ''d''), Call_add_edge 1 ''r'' 3 4]"

definition dup_P :: "native_state process" where
  "dup_P = \<lparr>nstate = \<lparr>ns_graphs = [1],
                       ns_vertices = [(2, 1, ''2''), (3, 1, ''3''), (4, 1, ''d'')],
                       ns_edges = [(5, 1, ''r'', 3, 4)], ns_next = 5, ns_error = []\<rparr>,
            calls = dup_calls\<rparr>"

definition dup_env :: heap where
  "dup_env = (\<lambda>r. None)"

definition dup_G1 :: tinkergraph where
  "dup_G1 = \<lparr>g_self = 1, g_native = 1, g_vertices = [(3, dup_c), (4, dup_d)],
             g_edges = [], g_vertex_id_counter = 0, g_closed = False\<rparr>"

definition dup_P1 :: "native_state process" where
  "dup_P1 = \<lparr>nstate = \<lparr>ns_graphs = [1], ns_vertices = [(3, 1, ''3''), (4, 1, ''d'')],
                        ns_edges = [], ns_next = 5, ns_error = []\<rparr>,
             calls = dup_calls @ [Call_vertex_count 1, Call_destroy_edge 5, Call_vertex_count 1,
                                  Call_destroy_vertex 2]\<rparr>"

section \<open>Unfolding the model on concrete states\<close>

lemmas broker_defs =
  NativeGraphHandle_add_vertex_def NativeGraphHandle_add_vertex_with_properties_def
  NativeGraphHandle_add_edge_def NativeGraphHandle_add_edge_with_properties_def
  NativeGraphHandle_vertex_count_def NativeGraphHandle_edge_count_def
  NativeGraphHandle_get_vertex_id_def NativeGraphHandle_get_edge_label_def
  NativeGraphHandle_destroy_vertex_def NativeGraphHandle_destroy_edge_def
  NativeGraphHandle_get_last_error_def NativeGraphHandle_init_def
  called_def id_bytes_def raise_native_error_def raise_validation_error_def
  buffer_after_def buffer_value_def decode_or_def decode_utf8_def NUL_def utf8_cont_def

lemmas engine_defs =
  spec_native_def sn_create_def sn_destroy_def sn_add_vertex_def
  sn_add_vertex_with_properties_def sn_add_edge_def sn_add_edge_with_properties_def
  sn_vertex_count_def sn_edge_count_def sn_vertex_id_def sn_edge_label_def
  sn_destroy_vertex_def sn_destroy_edge_def sn_get_error_message_def owned_by_def

lemmas graph_defs =
  TinkerGraph_check_not_closed_def TinkerGraph_vertex_count_def TinkerGraph_edge_count_def
  TinkerGraph_len_def TinkerGraph_str_def TinkerGraph_bool_def graph_truthy_def
  Vertex_graph_def Edge_graph_def resolved_id_def Vertex_eq_def Vertex_cleanup_def
  Edge_cleanup_def heap_with_def dict_del_def dict_contains_def dict_values_def
  reraise_native_def catches_def not_this_graph_def touches_def edges_to_remove_def
  new_vertex_id_def TinkerGraph_add_vertex_def TinkerGraph_add_edge_def TinkerGraph_vertices_def
  TinkerGraph_edges_def TinkerGraph_remove_edge_def TinkerGraph_remove_vertex_def
  TinkerGraph_clear_def TinkerGraph_close_def TinkerGraph_init_def
  Vertex_matches_properties_def Edge_matches_properties_def

lemmas ex_defs =
  ex_alice_def ex_bob_def ex_knows_def ex_G_def ex_other_def ex_G2_def ex_calls_def
  ex_native_def ex_P_def ex_env_def ex_env2_def ex_P0_def ex_G_closed_def ex_P_closed_def
  ex_G0_def ex_P1_def ex_G1_def ex_P2_def

lemmas dup_defs =
  dup_a_def dup_c_def dup_d_def dup_r_def dup_G_def dup_calls_def dup_P_def dup_env_def
  dup_G1_def dup_P1_def

text \<open>
  The states of the concrete run are the ones the operations produce: constructing a graph,
  adding alice, bob and the edge, then constructing the second graph and adding one vertex
  to it, starting from the empty engine, gives exactly the wrappers, graphs and call log
  written out above.
\<close>

lemma scenario_init:
  "TinkerGraph_init spec_native ex_P0 1 = (Inr ex_G0, ex_P1)"
  by (simp add: graph_defs broker_defs engine_defs ex_defs)

lemma scenario_add_alice:
  "TinkerGraph_add_vertex spec_native (\<lambda>r. None) ex_G0 ex_P1 (PStr ''person'') (PStr ''alice'')
     [(''name'', PStr ''Alice'')] = (Inr ex_alice, ex_G1, ex_P2)"
  by (simp add: graph_defs broker_defs engine_defs ex_defs Let_def)

lemma digit_codes:
  "char_of (48::nat) = CHR ''0''" "char_of (49::nat) = CHR ''1''" "char_of (50::nat) = CHR ''2''"
  "char_of (51::nat) = CHR ''3''" "char_of (52::nat) = CHR ''4''" "char_of (53::nat) = CHR ''5''"
  "char_of (54::nat) = CHR ''6''" "char_of (55::nat) = CHR ''7''" "char_of (56::nat) = CHR ''8''"
  "char_of (57::nat) = CHR ''9''"
  by code_simp+

lemma scenario_run:
  "(case TinkerGraph_init spec_native ex_P0 1 of
      (Inr G0, P1) \<Rightarrow>
        (case TinkerGraph_add_vertex spec_native (\<lambda>r. None) G0 P1 (PStr ''person'')
                (PStr ''alice'') [(''name'', PStr ''Alice'')] of
           (Inr a, G1, P2) \<Rightarrow>
             (case TinkerGraph_add_vertex spec_native (\<lambda>r. None) G1 P2 (PStr ''person'')
                     (PStr ''bob'') [] of
                (Inr b, G2, P3) \<Rightarrow>
                  (case TinkerGraph_add_edge spec_native (\<lambda>r. None) G2 P3 (PStr ''knows'')
                          (Obj_Vertex a) (Obj_Vertex b) None [(''since'', PInt 2018)] of
                     (Inr e, G3, P4) \<Rightarrow>
                       (case TinkerGraph_init spec_native P4 2 of
                          (Inr H0, P5) \<Rightarrow>
                            (case TinkerGraph_add_vertex spec_native ((\<lambda>r. None)(1 := Some G3))
                                    H0 P5 PNone PNone [] of
                               (Inr c, H1, P6) \<Rightarrow> Some (a, b, e, c, G3, H1, P6)
                             | _ \<Rightarrow> None)
                        | _ \<Rightarrow> None)
                   | _ \<Rightarrow> None)
              | _ \<Rightarrow> None)
         | _ \<Rightarrow> None)
    | _ \<Rightarrow> None)
   = Some (ex_alice, ex_bob, ex_knows, ex_other, ex_G, ex_G2, ex_P)"
  by (simp add: graph_defs broker_defs engine_defs ex_defs Let_def str_of_int_def digit_codes) force

text \<open>Closing the graph of the concrete run gives the closed state written out above.\<close>

lemma scenario_close:
  "TinkerGraph_close spec_native ex_env ex_G ex_P = (Inr (), ex_G_closed, ex_P_closed)"
  by (simp add: graph_defs broker_defs engine_defs ex_defs)

section \<open>The closed state\<close>

lemma closed_check:
  "g_closed G \<Longrightarrow> TinkerGraph_check_not_closed G = Inl (Exc TinkerGraphError None)"
  by (simp add: TinkerGraph_check_not_closed_def)

lemma open_check: "\<not> g_closed G \<Longrightarrow> TinkerGraph_check_not_closed G = Inr ()"
  by (simp add: TinkerGraph_check_not_closed_def)

text \<open>A \<open>close\<close> that returns leaves the graph closed, and an open graph with empty registries.\<close>

lemma close_result:
  assumes "TinkerGraph_close nt env G P = (Inr u, G1, P1)"
  shows "g_closed G1 \<and> (\<not> g_closed G \<longrightarrow> g_vertices G1 = [] \<and> g_edges G1 = [])"
  using assms
  by (auto simp: TinkerGraph_close_def split: if_splits prod.splits sum.splits)

lemma closed_operations:
  assumes "g_closed G"
  shows "TinkerGraph_add_vertex nt env G P label vertex_id props
           = (Inl (Exc TinkerGraphError None), G, P)"
    and "TinkerGraph_add_edge nt env G P elabel a b edge_id props
           = (Inl (Exc TinkerGraphError None), G, P)"
    and "TinkerGraph_vertices G filters = Inl (Exc TinkerGraphError None)"
    and "TinkerGraph_edges G filters = Inl (Exc TinkerGraphError None)"
    and "TinkerGraph_vertex_count nt P G = (Inl (Exc TinkerGraphError None), P)"
    and "TinkerGraph_edge_count nt P G = (Inl (Exc TinkerGraphError None), P)"
    and "TinkerGraph_remove_vertex nt env G P v = (Inl (Exc TinkerGraphError None), G, P)"
    and "TinkerGraph_remove_edge nt env G P e = (Inl (Exc TinkerGraphError None), G, P)"
    and "TinkerGraph_clear nt env G P = (Inl (Exc TinkerGraphError None), G, P)"
  using assms
  by (simp_all add: closed_check TinkerGraph_add_vertex_def TinkerGraph_add_edge_def
      TinkerGraph_vertices_def TinkerGraph_edges_def TinkerGraph_vertex_count_def
      TinkerGraph_edge_count_def TinkerGraph_remove_vertex_def TinkerGraph_remove_edge_def
      TinkerGraph_clear_def)

text \<open>
  Claim C2, as the code has it. After a \<open>close()\<close> that returned, each of \<open>add_vertex\<close>,
  \<open>add_edge\<close>, \<open>vertices\<close>, \<open>edges\<close>, \<open>vertex_count\<close>, \<open>edge_count\<close>, \<open>remove_vertex\<close>,
  \<open>remove_edge\<close> and \<open>clear\<close> fails, whatever its arguments, with an exception of the
  root class \<open>TinkerGraphError\<close> (the class \<open>_check_not_closed\<close> raises), leaving the graph
  and the native side untouched. The root class is no leaf kind: the library has no
  class of its own for the closed state.
\<close>

theorem closed_graph_raises_root_error:
  assumes "TinkerGraph_close nt env G0 P0 = (Inr (), G, P)"
  shows "TinkerGraph_add_vertex nt env1 G P1 label vertex_id props
           = (Inl (Exc TinkerGraphError None), G, P1)
    \<and> TinkerGraph_add_edge nt env1 G P1 elabel a b edge_id props
           = (Inl (Exc TinkerGraphError None), G, P1)
    \<and> TinkerGraph_vertices G filters = Inl (Exc TinkerGraphError None)
    \<and> TinkerGraph_edges G filters = Inl (Exc TinkerGraphError None)
    \<and> TinkerGraph_vertex_count nt P1 G = (Inl (Exc TinkerGraphError None), P1)
    \<and> TinkerGraph_edge_count nt P1 G = (Inl (Exc TinkerGraphError None), P1)
    \<and> TinkerGraph_remove_vertex nt env1 G P1 v = (Inl (Exc TinkerGraphError None), G, P1)
    \<and> TinkerGraph_remove_edge nt env1 G P1 e = (Inl (Exc TinkerGraphError None), G, P1)
    \<and> TinkerGraph_clear nt env1 G P1 = (Inl (Exc TinkerGraphError None), G, P1)
    \<and> \<not> leaf_kind TinkerGraphError"
proof -
  have c: "g_closed G" using close_result [OF assms] by simp
  show ?thesis by (simp add: closed_operations [OF c] leaf_kind_def)
qed

theorem closed_graph_raises_root_error_witness:
  "TinkerGraph_close spec_native ex_env ex_G ex_P = (Inr (), ex_G_closed, ex_P_closed)
   \<and> TinkerGraph_add_vertex spec_native ex_env ex_G_closed ex_P_closed PNone PNone []
       = (Inl (Exc TinkerGraphError None), ex_G_closed, ex_P_closed)
   \<and> TinkerGraph_vertex_count spec_native ex_P_closed ex_G_closed
       = (Inl (Exc TinkerGraphError None), ex_P_closed)
   \<and> TinkerGraph_clear spec_native ex_env ex_G_closed ex_P_closed
       = (Inl (Exc TinkerGraphError None), ex_G_closed, ex_P_closed)"
  using closed_graph_raises_root_error [OF scenario_close, of ex_env ex_P_closed PNone PNone "[]"]
  by (simp add: scenario_close)

text \<open>
  Claim C2 as stated fails: on the closed graph of the concrete run, \<open>vertex_count\<close>
  raises the root class \<open>TinkerGraphError\<close>, which is not a leaf kind, and a handler
  for it catches the validation and native errors as well.
\<close>

theorem graph_closed_kind_counterexample:
  "TinkerGraph_vertex_count spec_native ex_P_closed ex_G_closed
     = (Inl (Exc TinkerGraphError None), ex_P_closed)
   \<and> \<not> leaf_kind TinkerGraphError
   \<and> catches TinkerGraphError TinkerGraphValidationError
   \<and> catches TinkerGraphError TinkerGraphNativeError"
  by (simp add: graph_defs leaf_kind_def ex_defs)

text \<open>
  Claim C10. On a graph on which \<open>close()\<close> has been called, \<open>len(G)\<close> and \<open>str(G)\<close> raise
  the closed-graph error of \<open>_check_not_closed\<close> instead of returning a value, and make
  no native call: both go through \<open>vertex_count\<close>.
\<close>

theorem closed_len_str_raise:
  assumes "TinkerGraph_close nt env G0 P0 = (Inr (), G, P)"
  shows "TinkerGraph_len nt P1 G = (Inl (Exc TinkerGraphError None), P1)
    \<and> TinkerGraph_str nt P1 G = (Inl (Exc TinkerGraphError None), P1)
    \<and> TinkerGraph_check_not_closed G = Inl (Exc TinkerGraphError None)"
proof -
  have c: "g_closed G" using close_result [OF assms] by simp
  show ?thesis
    by (simp add: TinkerGraph_len_def TinkerGraph_str_def closed_operations(5) [OF c]
        closed_check [OF c])
qed

theorem closed_len_str_raise_witness:
  "TinkerGraph_close spec_native ex_env ex_G ex_P = (Inr (), ex_G_closed, ex_P_closed)
   \<and> TinkerGraph_len spec_native ex_P_closed ex_G_closed
       = (Inl (Exc TinkerGraphError None), ex_P_closed)
   \<and> TinkerGraph_str spec_native ex_P_closed ex_G_closed
       = (Inl (Exc TinkerGraphError None), ex_P_closed)"
  using closed_len_str_raise [OF scenario_close, of ex_P_closed]
  by (simp add: scenario_close)

lemma truthy_returns:
  assumes "\<not> g_closed G" and "\<forall>n. 0 \<le> tinkergraph_vertex_count nt n (g_native G)"
  shows "\<exists>t P1. graph_truthy nt P (Some G) = (Inr t, P1)"
proof -
  have "\<not> tinkergraph_vertex_count nt (nstate P) (g_native G) < 0"
    using assms(2) by (simp add: not_less)
  then show ?thesis
    using assms(1)
    by (simp add: graph_truthy_def TinkerGraph_bool_def TinkerGraph_len_def
        TinkerGraph_vertex_count_def open_check NativeGraphHandle_vertex_count_def)
qed

lemma vertex_cleanup_returns:
  assumes "\<not> g_closed G" and "\<forall>n. 0 \<le> tinkergraph_vertex_count nt n (g_native G)"
    and "v_graph_ref v = g_self G"
  shows "\<exists>v1 P1. Vertex_cleanup nt (heap_with env G) P v = (Inr (), v1, P1)"
proof -
  have g: "Vertex_graph (heap_with env G) v = Some G"
    using assms(3) by (simp add: Vertex_graph_def heap_with_def)
  obtain t Pa where "graph_truthy nt P (Some G) = (Inr t, Pa)"
    using truthy_returns [OF assms(1,2)] by blast
  then show ?thesis by (simp add: Vertex_cleanup_def g)
qed

lemma edge_cleanup_returns:
  assumes "\<not> g_closed G" and "\<forall>n. 0 \<le> tinkergraph_vertex_count nt n (g_native G)"
    and "e_graph_ref e = g_self G"
  shows "\<exists>e1 P1. Edge_cleanup nt (heap_with env G) P e = (Inr (), e1, P1)"
proof -
  have g: "Edge_graph (heap_with env G) e = Some G"
    using assms(3) by (simp add: Edge_graph_def heap_with_def)
  obtain t Pa where "graph_truthy nt P (Some G) = (Inr t, Pa)"
    using truthy_returns [OF assms(1,2)] by blast
  then show ?thesis by (simp add: Edge_cleanup_def g)
qed

lemma cleanup_vertices_returns:
  assumes "\<not> g_closed G" and "\<forall>n. 0 \<le> tinkergraph_vertex_count nt n (g_native G)"
    and "\<forall>x \<in> set rest. v_graph_ref (snd x) = g_self G"
  shows "\<exists>G1 P1. cleanup_vertices nt env G P seen rest = (Inr (), G1, P1)
           \<and> g_closed G1 = g_closed G \<and> g_self G1 = g_self G \<and> g_native G1 = g_native G
           \<and> g_edges G1 = g_edges G"
  using assms
proof (induction rest arbitrary: G P seen)
  case Nil
  then show ?case by simp
next
  case (Cons x rest)
  obtain k v where x: "x = (k, v)" by (cases x)
  have r: "v_graph_ref v = g_self G" using Cons.prems(3) x by simp
  obtain v1 Pa where c: "Vertex_cleanup nt (heap_with env G) P v = (Inr (), v1, Pa)"
    using vertex_cleanup_returns [OF Cons.prems(1,2) r] by blast
  let ?G' = "G\<lparr>g_vertices := seen @ (k, v1) # rest\<rparr>"
  have "\<exists>G1 P1. cleanup_vertices nt env ?G' Pa (seen @ [(k, v1)]) rest = (Inr (), G1, P1)
           \<and> g_closed G1 = g_closed ?G' \<and> g_self G1 = g_self ?G' \<and> g_native G1 = g_native ?G'
           \<and> g_edges G1 = g_edges ?G'"
    using Cons.prems by (intro Cons.IH) simp_all
  then show ?case by (simp add: x c)
qed

lemma cleanup_edges_returns:
  assumes "\<not> g_closed G" and "\<forall>n. 0 \<le> tinkergraph_vertex_count nt n (g_native G)"
    and "\<forall>x \<in> set rest. e_graph_ref (snd x) = g_self G"
  shows "\<exists>G1 P1. cleanup_edges nt env G P seen rest = (Inr (), G1, P1)"
  using assms
proof (induction rest arbitrary: G P seen)
  case Nil
  then show ?case by simp
next
  case (Cons x rest)
  obtain k e where x: "x = (k, e)" by (cases x)
  have r: "e_graph_ref e = g_self G" using Cons.prems(3) x by simp
  obtain e1 Pa where c: "Edge_cleanup nt (heap_with env G) P e = (Inr (), e1, Pa)"
    using edge_cleanup_returns [OF Cons.prems(1,2) r] by blast
  let ?G' = "G\<lparr>g_edges := seen @ (k, e1) # rest\<rparr>"
  have "\<exists>G1 P1. cleanup_edges nt env ?G' Pa (seen @ [(k, e1)]) rest = (Inr (), G1, P1)"
    using Cons.prems by (intro Cons.IH) simp_all
  then show ?case by (simp add: x c)
qed

text \<open>
  \<open>close\<close> never raises when the native vertex count is never negative and the
  registered wrappers refer back to the graph; the engine's counts are never negative.
\<close>

lemma close_returns:
  assumes "\<forall>n. 0 \<le> tinkergraph_vertex_count nt n (g_native G)"
    and "\<forall>x \<in> set (g_vertices G). v_graph_ref (snd x) = g_self G"
    and "\<forall>x \<in> set (g_edges G). e_graph_ref (snd x) = g_self G"
  shows "\<exists>G1 P1. TinkerGraph_close nt env G P = (Inr (), G1, P1)"
proof (cases "g_closed G")
  case True
  then show ?thesis by (simp add: TinkerGraph_close_def)
next
  case False
  obtain Ga Pa where a: "cleanup_vertices nt env G P [] (g_vertices G) = (Inr (), Ga, Pa)"
    and fa: "g_closed Ga = g_closed G" "g_self Ga = g_self G" "g_native Ga = g_native G"
      "g_edges Ga = g_edges G"
    using cleanup_vertices_returns [OF False assms(1,2)] by blast
  have "\<exists>G1 P1. cleanup_edges nt env Ga Pa [] (g_edges Ga) = (Inr (), G1, P1)"
    using False assms(1,3) by (intro cleanup_edges_returns) (simp_all add: fa)
  then obtain Gb Pb where b: "cleanup_edges nt env Ga Pa [] (g_edges Ga) = (Inr (), Gb, Pb)"
    by blast
  show ?thesis using False by (simp add: TinkerGraph_close_def a b)
qed

lemma spec_native_counts_nonneg: "0 \<le> tinkergraph_vertex_count spec_native n g"
  by (simp add: spec_native_def sn_vertex_count_def)

text \<open>
  Claim C6. Once \<open>close()\<close> has returned, a second \<open>close()\<close> returns too, raises nothing
  and changes neither the graph nor the native side: the state after two calls is the
  state after one, with the closed flag set and, for a graph that was open, both
  registries empty.
\<close>

theorem close_twice:
  assumes "TinkerGraph_close nt env G P = (Inr (), G1, P1)"
  shows "TinkerGraph_close nt env1 G1 P1 = (Inr (), G1, P1)
         \<and> g_closed G1 \<and> (\<not> g_closed G \<longrightarrow> g_vertices G1 = [] \<and> g_edges G1 = [])"
proof -
  have c: "g_closed G1 \<and> (\<not> g_closed G \<longrightarrow> g_vertices G1 = [] \<and> g_edges G1 = [])"
    using close_result [OF assms] .
  then show ?thesis by (simp add: TinkerGraph_close_def)
qed

theorem close_twice_witness:
  "TinkerGraph_close spec_native ex_env ex_G ex_P = (Inr (), ex_G_closed, ex_P_closed)
   \<and> TinkerGraph_close spec_native ex_env ex_G_closed ex_P_closed
       = (Inr (), ex_G_closed, ex_P_closed)
   \<and> g_closed ex_G_closed \<and> \<not> g_closed ex_G
   \<and> g_vertices ex_G_closed = [] \<and> g_edges ex_G_closed = []"
proof -
  have "\<not> g_closed ex_G" by (simp add: ex_G_def)
  then show ?thesis
    using close_twice [OF scenario_close, of ex_env] by (simp add: scenario_close)
qed

section \<open>Filters\<close>

lemma matches_properties_iff:
  "matches_properties props filters
     \<longleftrightarrow> (\<forall>kv \<in> set filters. \<exists>x. map_of props (fst kv) = Some x \<and> py_eq x (snd kv))"
  by (induction filters) (auto split: option.splits if_splits)

lemma py_eq_str: "py_eq x (PStr s) \<longleftrightarrow> x = PStr s"
  by (cases x) auto

text \<open>
  Claim C8. On an open graph, \<open>vertices(**F)\<close> returns the registered vertices, in
  registry order, whose overlay has every key of \<open>F\<close> with a value equal (Python's \<open>==\<close>)
  to the value \<open>F\<close> gives; with no filter it returns all registered vertices. Against a
  string, equal means being that very string: no partial or substring match.
\<close>

theorem vertices_filter:
  assumes "\<not> g_closed G"
  shows "TinkerGraph_vertices G filters =
           Inr (filter (\<lambda>v. \<forall>kv \<in> set filters.
                          \<exists>x. map_of (v_properties v) (fst kv) = Some x \<and> py_eq x (snd kv))
                  (dict_values (g_vertices G)))
         \<and> TinkerGraph_vertices G [] = Inr (dict_values (g_vertices G))
         \<and> (py_eq x (PStr s) \<longleftrightarrow> x = PStr s)"
  using assms
  by (simp add: TinkerGraph_vertices_def open_check Vertex_matches_properties_def
      matches_properties_iff py_eq_str Let_def)

theorem vertices_filter_witness:
  "\<not> g_closed ex_G
   \<and> TinkerGraph_vertices ex_G [(''name'', PStr ''Alice'')] = Inr [ex_alice]
   \<and> TinkerGraph_vertices ex_G [(''name'', PStr ''Ali'')] = Inr []
   \<and> TinkerGraph_vertices ex_G [] = Inr [ex_alice, ex_bob]"
  using vertices_filter [of ex_G "[(''name'', PStr ''Alice'')]"]
        vertices_filter [of ex_G "[(''name'', PStr ''Ali'')]"]
  by (simp add: ex_G_def ex_alice_def ex_bob_def dict_values_def)

section \<open>Wrappers that outlive their graph\<close>

lemma reclaimed_out_edges:
  "hp (v_graph_ref v) = None \<Longrightarrow> Vertex_out_edges nt hp P v labels = (Inr [], P)"
  by (simp add: Vertex_out_edges_def graph_truthy_def Vertex_graph_def)

lemma reclaimed_in_edges:
  "hp (v_graph_ref v) = None \<Longrightarrow> Vertex_in_edges nt hp P v labels = (Inr [], P)"
  by (simp add: Vertex_in_edges_def graph_truthy_def Vertex_graph_def)

text \<open>
  Claim C7. For a vertex whose graph has been reclaimed (its weak reference resolves to
  \<open>None\<close>), the six adjacency queries return the empty list, raise nothing and make no
  native call; the property accessors never look at the graph: \<open>set\<close> with a string key
  stores the value, \<open>get\<close> reads it back, \<open>remove\<close> gives the previous value or \<open>None\<close>
  and leaves the key absent.
\<close>

theorem reclaimed_graph_wrapper:
  assumes "hp (v_graph_ref v) = None"
  shows "Vertex_out_edges nt hp P v labels = (Inr [], P)
       \<and> Vertex_in_edges nt hp P v labels = (Inr [], P)
       \<and> Vertex_both_edges nt hp P v labels = (Inr [], P)
       \<and> Vertex_out_vertices nt hp P v labels = (Inr [], P)
       \<and> Vertex_in_vertices nt hp P v labels = (Inr [], P)
       \<and> Vertex_both_vertices nt hp P v labels = (Inr [], P)
       \<and> Vertex_set_property v (PStr k) x
           = Inr (v\<lparr>v_properties := AList.update k x (v_properties v)\<rparr>)
       \<and> Vertex_get_property (v\<lparr>v_properties := AList.update k x (v_properties v)\<rparr>) k d = x
       \<and> fst (Vertex_remove_property v k) = Vertex_get_property v k PNone
       \<and> Vertex_get_property (snd (Vertex_remove_property v k)) k d = d
       \<and> v_graph_ref (snd (Vertex_remove_property v k)) = v_graph_ref v"
  using assms
  by (simp add: reclaimed_out_edges reclaimed_in_edges Vertex_both_edges_def
      Vertex_out_vertices_def Vertex_in_vertices_def Vertex_both_vertices_def
      Vertex_set_property_def Vertex_get_property_def Vertex_remove_property_def
      update_conv' delete_conv' split: option.splits)

theorem reclaimed_graph_wrapper_witness:
  "(\<lambda>r. None) (v_graph_ref ex_alice) = (None :: tinkergraph option)
   \<and> Vertex_out_edges spec_native (\<lambda>r. None) ex_P ex_alice [] = (Inr [], ex_P)
   \<and> Vertex_both_vertices spec_native (\<lambda>r. None) ex_P ex_alice [PStr ''knows''] = (Inr [], ex_P)
   \<and> Vertex_get_property ex_alice ''name'' PNone = PStr ''Alice''"
  using reclaimed_graph_wrapper [of "\<lambda>r. None" ex_alice spec_native ex_P "[]"]
        reclaimed_graph_wrapper [of "\<lambda>r. None" ex_alice spec_native ex_P "[PStr ''knows'']"]
  by (simp add: Vertex_get_property_def ex_alice_def)

section \<open>Validation in add_edge\<close>

lemma foreign_not_this_graph:
  "v_graph_ref b \<noteq> g_self G \<Longrightarrow> not_this_graph env G b"
  by (simp add: not_this_graph_def resolved_id_def heap_with_def split: option.splits)

lemma own_this_graph:
  "v_graph_ref a = g_self G \<Longrightarrow> \<not> not_this_graph env G a"
  by (simp add: not_this_graph_def resolved_id_def heap_with_def)

text \<open>
  Claim C4. On an open graph \<open>G\<close>, \<open>add_edge\<close> with an in-vertex that belongs to another
  graph (its back-reference is not \<open>G\<close>) fails with \<open>TinkerGraphValidationError\<close>,
  whatever the label, the out-vertex, the id and the properties, and leaves the graph and
  the native side as they were: no native call is made.
\<close>

theorem cross_context_rejected:
  assumes "\<not> g_closed G" and "v_graph_ref b \<noteq> g_self G"
  shows "TinkerGraph_add_edge nt env G P label (Obj_Vertex a) (Obj_Vertex b) edge_id props
           = (Inl (Exc TinkerGraphValidationError None), G, P)"
  using assms
  by (cases label)
     (simp_all add: TinkerGraph_add_edge_def open_check foreign_not_this_graph
        raise_validation_error_def)

theorem cross_context_rejected_witness:
  "\<not> g_closed ex_G \<and> v_graph_ref ex_other \<noteq> g_self ex_G
   \<and> v_graph_ref ex_alice = g_self ex_G \<and> v_graph_ref ex_other = g_self ex_G2
   \<and> TinkerGraph_add_edge spec_native ex_env ex_G ex_P (PStr ''knows'') (Obj_Vertex ex_alice)
        (Obj_Vertex ex_other) None []
       = (Inl (Exc TinkerGraphValidationError None), ex_G, ex_P)"
proof -
  have h: "\<not> g_closed ex_G" "v_graph_ref ex_other \<noteq> g_self ex_G"
    by (simp_all add: ex_G_def ex_other_def)
  have "v_graph_ref ex_alice = g_self ex_G" "v_graph_ref ex_other = g_self ex_G2"
    by (simp_all add: ex_G_def ex_alice_def ex_other_def ex_G2_def)
  then show ?thesis
    using h cross_context_rejected
      [OF h, of spec_native ex_env ex_P "PStr ''knows''" ex_alice None "[]"]
    by simp
qed




section \<open>String retrieval through a fixed buffer\<close>

lemma length_buffer_after: "length (buffer_after N w) = N"
  by (simp add: buffer_after_def)

lemma length_buffer_value: "length (buffer_value buf) \<le> length buf"
  by (simp add: buffer_value_def length_takeWhile_le)

lemma decode_or_cases:
  "decode_or d buf = Inr d
   \<or> decode_or d buf = Inr (buffer_value buf)
   \<or> decode_or d buf = Inl (Exc UnicodeDecodeError None)"
  by (simp add: decode_or_def decode_utf8_def)

text \<open>
  What the three string-returning operations do when the native call returns a length
  that meets or exceeds the buffer size \<open>N\<close>: the length is not compared with \<open>N\<close>. One
  native call is made; the result is the bytes of the buffer before the first NUL (at
  most \<open>N\<close>), decoded, or the default text when there are none; the only error is a
  \<open>UnicodeDecodeError\<close> of the decoder.
\<close>

lemma oversized_length_not_checked:
  "(int N \<le> fst (tinkergraph_vertex_id nt (nstate P) p N) \<longrightarrow>
      NativeGraphHandle_get_vertex_id nt P p N
        = (decode_or [] (buffer_after N (snd (tinkergraph_vertex_id nt (nstate P) p N))),
           called (Call_vertex_id p N) (nstate P) P))
   \<and> (int N \<le> fst (tinkergraph_edge_label nt (nstate P) p N) \<longrightarrow>
      NativeGraphHandle_get_edge_label nt P p N
        = (decode_or [] (buffer_after N (snd (tinkergraph_edge_label nt (nstate P) p N))),
           called (Call_edge_label p N) (nstate P) P))
   \<and> (int N \<le> fst (tinkergraph_get_error_message nt (nstate P) N) \<longrightarrow>
      NativeGraphHandle_get_last_error nt P N
        = (decode_or ''No error message available''
             (buffer_after N (snd (tinkergraph_get_error_message nt (nstate P) N))),
           called (Call_get_error_message N) (nstate P) P))
   \<and> (decode_or d (buffer_after N w) = Inr d
        \<or> decode_or d (buffer_after N w) = Inr (buffer_value (buffer_after N w))
        \<or> decode_or d (buffer_after N w) = Inl (Exc UnicodeDecodeError None))
   \<and> length (buffer_value (buffer_after N w)) \<le> N"
proof -
  have "length (buffer_value (buffer_after N w)) \<le> N"
    using length_buffer_value [of "buffer_after N w"] by (simp add: length_buffer_after)
  then show ?thesis
    using decode_or_cases [of d "buffer_after N w"]
    by (auto simp: NativeGraphHandle_get_vertex_id_def NativeGraphHandle_get_edge_label_def
        NativeGraphHandle_get_last_error_def Let_def split: prod.splits)
qed

text \<open>
  Claim C3 at a failing input. The engine holds the vertex id \<open>alice\<close> (5 bytes) under
  handle 2 and the edge label \<open>knows\<close> under handle 4. Asked with a buffer of 3 bytes it
  returns the length 5; \<open>get_vertex_id\<close> then returns \<open>ali\<close> and \<open>get_edge_label\<close> returns
  \<open>kno\<close>, after a single native call each and without any error.
\<close>

theorem truncated_id_returned:
  "NativeGraphHandle_get_vertex_id spec_native ex_P 2 3
     = (Inr ''ali'', \<lparr>nstate = ex_native, calls = ex_calls @ [Call_vertex_id 2 3]\<rparr>)
   \<and> tinkergraph_vertex_id spec_native ex_native 2 3 = (5, ''ali'')
   \<and> map_of (ns_vertices ex_native) 2 = Some (1, ''alice'')
   \<and> NativeGraphHandle_get_edge_label spec_native ex_P 4 3
     = (Inr ''kno'', \<lparr>nstate = ex_native, calls = ex_calls @ [Call_edge_label 4 3]\<rparr>)"
  by (simp add: broker_defs engine_defs ex_P_def ex_native_def)

section \<open>Labels and the property overlay\<close>

lemma update_in_values: "v \<in> set (dict_values (AList.update k v al))"
proof -
  have "map_of (AList.update k v al) k = Some v" by (simp add: update_conv')
  then have "(k, v) \<in> set (AList.update k v al)" by (rule map_of_SomeD)
  then show ?thesis by (force simp: dict_values_def)
qed

lemma add_vertex_with_properties_calls:
  "NativeGraphHandle_add_vertex_with_properties nt P h vid props = (r, Pa) \<Longrightarrow>
   calls Pa = calls P @
     [Call_add_vertex_with_properties h (id_bytes vid) (map fst props)
        (map (\<lambda>kv. py_str (snd kv)) props) (int (length props))]"
  by (auto simp: NativeGraphHandle_add_vertex_with_properties_def Let_def called_def
      split: prod.splits if_splits)

lemma get_vertex_id_calls:
  "NativeGraphHandle_get_vertex_id nt P p N = (r, Pa) \<Longrightarrow>
   calls Pa = calls P @ [Call_vertex_id p N]"
  by (auto simp: NativeGraphHandle_get_vertex_id_def Let_def called_def
      split: prod.splits if_splits)

lemma new_vertex_id_facts:
  assumes "new_vertex_id nt G Pa vertex_id p = (s, G', P2)"
  shows "g_vertices G' = g_vertices G" and "g_closed G' = g_closed G"
    and "\<exists>rest. calls P2 = calls Pa @ rest"
proof -
  show "g_vertices G' = g_vertices G" "g_closed G' = g_closed G"
    using assms
    by (auto simp: new_vertex_id_def split: option.splits prod.splits sum.splits)
  show "\<exists>rest. calls P2 = calls Pa @ rest"
  proof (cases "optional_str vertex_id")
    case (Some a)
    then show ?thesis using assms by (simp add: new_vertex_id_def)
  next
    case None
    obtain r Pb where g: "NativeGraphHandle_get_vertex_id nt Pa p 256 = (r, Pb)"
      by (cases "NativeGraphHandle_get_vertex_id nt Pa p 256")
    have "P2 = Pb" using assms None g
      by (cases r) (simp_all add: new_vertex_id_def)
    then show ?thesis using get_vertex_id_calls [OF g] by simp
  qed
qed

text \<open>\<open>add_vertex\<close> on an open graph with a label other than the default.\<close>

lemma add_vertex_labelled:
  assumes "L \<noteq> ''vertex''" and "\<not> g_closed G"
  shows "TinkerGraph_add_vertex nt env G P (PStr L) vertex_id props =
     (if vertex_id \<noteq> PNone \<and> \<not> isinstance_str vertex_id then (Inl raise_validation_error, G, P)
      else
        (case NativeGraphHandle_add_vertex_with_properties nt P (g_native G)
                (optional_str vertex_id) (AList.update ''label'' (PStr L) props) of
           (Inl e, P1) \<Rightarrow> (Inl (reraise_native TinkerGraphVertexError e), G, P1)
         | (Inr vertex_ptr, P1) \<Rightarrow>
             (case new_vertex_id nt G P1 vertex_id vertex_ptr of
                (vid, G1, P2) \<Rightarrow>
                  (Inr \<lparr>v_graph_ref = g_self G, v_ptr = vertex_ptr, v_id = vid, v_label = L,
                        v_properties = props, v_disposed = False\<rparr>,
                   G1\<lparr>g_vertices :=
                        AList.update vertex_ptr
                          \<lparr>v_graph_ref = g_self G, v_ptr = vertex_ptr, v_id = vid, v_label = L,
                            v_properties = props, v_disposed = False\<rparr> (g_vertices G1)\<rparr>,
                   P2))))"
  using assms
  by (simp add: TinkerGraph_add_vertex_def open_check Let_def
      split: prod.splits sum.splits)

text \<open>
  Claim C9. When \<open>add_vertex\<close> with a string label \<open>L\<close> other than \<open>"vertex"\<close> returns a
  vertex, the first native call it made is the add-vertex-with-properties call whose
  property set is \<open>props\<close> with the key \<open>"label"\<close> set to \<open>L\<close>; the overlay of the returned
  vertex is exactly \<open>props\<close>, so it has no \<open>"label"\<close> key unless \<open>props\<close> had one; and
  \<open>vertices(label=L)\<close> on the resulting graph returns that vertex exactly when \<open>props\<close>
  itself maps \<open>"label"\<close> to \<open>L\<close>.
\<close>

theorem label_forwarded_not_mirrored:
  assumes "L \<noteq> ''vertex''"
    and "TinkerGraph_add_vertex nt env G P (PStr L) vertex_id props = (Inr v, G1, P1)"
  shows "(\<exists>rest. calls P1 = calls P @
           Call_add_vertex_with_properties (g_native G) (id_bytes (optional_str vertex_id))
             (map fst (AList.update ''label'' (PStr L) props))
             (map (\<lambda>kv. py_str (snd kv)) (AList.update ''label'' (PStr L) props))
             (int (length (AList.update ''label'' (PStr L) props))) # rest)
       \<and> map_of (AList.update ''label'' (PStr L) props) ''label'' = Some (PStr L)
       \<and> v_properties v = props
       \<and> (''label'' \<notin> fst ` set props \<longrightarrow> ''label'' \<notin> fst ` set (v_properties v))
       \<and> (\<exists>vs. TinkerGraph_vertices G1 [(''label'', PStr L)] = Inr vs
              \<and> (v \<in> set vs \<longleftrightarrow> map_of props ''label'' = Some (PStr L))
              \<and> (''label'' \<notin> fst ` set props \<longrightarrow> v \<notin> set vs))"
proof -
  have o: "\<not> g_closed G"
    using assms(2) closed_operations(1) [of G nt env P "PStr L" vertex_id props] by auto
  obtain r Pa where nat:
    "NativeGraphHandle_add_vertex_with_properties nt P (g_native G) (optional_str vertex_id)
       (AList.update ''label'' (PStr L) props) = (r, Pa)"
    by (cases "NativeGraphHandle_add_vertex_with_properties nt P (g_native G)
                 (optional_str vertex_id) (AList.update ''label'' (PStr L) props)")
  note u = assms(2) [unfolded add_vertex_labelled [OF assms(1) o] nat]
  have valid: "\<not> (vertex_id \<noteq> PNone \<and> \<not> isinstance_str vertex_id)"
    using u by (auto split: if_splits)
  obtain p where r: "r = Inr p" using u valid by (cases r) auto
  obtain s G' P2 where t: "new_vertex_id nt G Pa vertex_id p = (s, G', P2)"
    by (cases "new_vertex_id nt G Pa vertex_id p")
  from u valid r t have v: "v = \<lparr>v_graph_ref = g_self G, v_ptr = p, v_id = s, v_label = L,
                                  v_properties = props, v_disposed = False\<rparr>"
    and G1: "G1 = G'\<lparr>g_vertices := AList.update p v (g_vertices G')\<rparr>"
    and P1: "P1 = P2"
    by auto
  note f = new_vertex_id_facts [OF t]
  have c: "\<exists>rest. calls P1 = calls P @
           Call_add_vertex_with_properties (g_native G) (id_bytes (optional_str vertex_id))
             (map fst (AList.update ''label'' (PStr L) props))
             (map (\<lambda>kv. py_str (snd kv)) (AList.update ''label'' (PStr L) props))
             (int (length (AList.update ''label'' (PStr L) props))) # rest"
    using f(3) add_vertex_with_properties_calls [OF nat] P1 by auto
  have props: "v_properties v = props" by (simp add: v)
  have o1: "\<not> g_closed G1" using o f(2) by (simp add: G1)
  have reg: "v \<in> set (dict_values (g_vertices G1))"
    by (simp add: G1 update_in_values)
  have m: "Vertex_matches_properties v [(''label'', PStr L)]
             \<longleftrightarrow> map_of props ''label'' = Some (PStr L)"
    by (simp add: Vertex_matches_properties_def props py_eq_str split: option.splits)
  have vs: "TinkerGraph_vertices G1 [(''label'', PStr L)]
              = Inr (filter (\<lambda>w. Vertex_matches_properties w [(''label'', PStr L)])
                       (dict_values (g_vertices G1)))"
    by (simp add: TinkerGraph_vertices_def open_check [OF o1])
  have none: "''label'' \<notin> fst ` set props \<Longrightarrow> map_of props ''label'' \<noteq> Some (PStr L)"
    by (metis map_of_eq_None_iff option.distinct(1))
  show ?thesis
    using c props reg m none by (simp add: vs update_conv')
qed

theorem label_forwarded_not_mirrored_witness:
  "''person'' \<noteq> ''vertex''
   \<and> TinkerGraph_add_vertex spec_native (\<lambda>r. None) ex_G0 ex_P1 (PStr ''person'') (PStr ''alice'')
       [(''name'', PStr ''Alice'')] = (Inr ex_alice, ex_G1, ex_P2)
   \<and> v_properties ex_alice = [(''name'', PStr ''Alice'')]
   \<and> ''label'' \<notin> fst ` set (v_properties ex_alice)
   \<and> (\<exists>vs. TinkerGraph_vertices ex_G1 [(''label'', PStr ''person'')] = Inr vs
          \<and> ex_alice \<notin> set vs)"
proof -
  have n: "''person'' \<noteq> ''vertex''" by simp
  show ?thesis
    using label_forwarded_not_mirrored [OF n scenario_add_alice]
    by (simp add: scenario_add_alice)
qed

section \<open>The cascade of remove_vertex\<close>

subsection \<open>Association lists\<close>

lemma keys_delete: "fst ` set (AList.delete k xs) = fst ` set xs - {k}"
  by (induction xs) auto

lemma in_delete: "x \<in> set (AList.delete k xs) \<Longrightarrow> x \<in> set xs"
  by (induction xs) (auto split: if_splits)


lemma owned_by_delete: "owned_by g (AList.delete h xs) = AList.delete h (owned_by g xs)"
  by (induction xs) (auto simp: owned_by_def)

lemma distinct_owned_by: "distinct (map fst xs) \<Longrightarrow> distinct (map fst (owned_by g xs))"
  by (simp add: owned_by_def distinct_map_filter)

lemma length_by_keys:
  assumes "distinct (map fst xs)" and "distinct (map fst ys)"
    and "fst ` set xs = fst ` set ys"
  shows "length xs = length ys"
proof -
  have "length xs = card (set (map fst xs))"
    using assms(1) by (simp add: distinct_card del: set_map)
  also have "\<dots> = card (set (map fst ys))" using assms(3) by simp
  also have "\<dots> = length ys"
    using assms(2) by (simp add: distinct_card del: set_map)
  finally show ?thesis .
qed

lemma dict_contains_key: "dict_contains k d \<longleftrightarrow> k \<in> fst ` set d"
  by (simp add: dict_contains_def map_of_eq_None_iff)

subsection \<open>Counts of the engine in a synchronised state\<close>

lemma sync_vertex_count:
  assumes "wrappers_ok G" and "in_sync G n"
  shows "sn_vertex_count n (g_native G) = int (length (g_vertices G))"
proof -
  have "length (owned_by (g_native G) (ns_vertices n)) = length (g_vertices G)"
    using assms
    by (intro length_by_keys distinct_owned_by) (simp_all add: wrappers_ok_def in_sync_def)
  then show ?thesis by (simp add: sn_vertex_count_def)
qed


lemma spec_native_simps [simp]:
  "tinkergraph_vertex_count spec_native = sn_vertex_count"
  "tinkergraph_edge_count spec_native = sn_edge_count"
  "tinkergraph_destroy_vertex spec_native = sn_destroy_vertex"
  "tinkergraph_destroy_edge spec_native = sn_destroy_edge"
  by (simp_all add: spec_native_def)

lemma open_vertex_count:
  "\<not> g_closed G \<Longrightarrow>
   TinkerGraph_vertex_count spec_native P G
     = (Inr (sn_vertex_count (nstate P) (g_native G)),
        called (Call_vertex_count (g_native G)) (nstate P) P)"
  by (simp add: TinkerGraph_vertex_count_def open_check NativeGraphHandle_vertex_count_def)


lemma truthy_nonempty:
  assumes "\<not> g_closed G" and "wrappers_ok G" and "in_sync G (nstate P)"
    and "g_vertices G \<noteq> []"
  shows "graph_truthy spec_native P (Some G)
           = (Inr True, called (Call_vertex_count (g_native G)) (nstate P) P)"
proof -
  have "0 < length (g_vertices G)" using assms(4) by simp
  then have "0 < sn_vertex_count (nstate P) (g_native G)"
    using sync_vertex_count [OF assms(2,3)] by simp
  then show ?thesis
    using assms(1)
    by (simp add: graph_truthy_def TinkerGraph_bool_def TinkerGraph_len_def open_vertex_count)
qed

lemma nstate_called [simp]: "nstate (called c n P) = n"
  by (simp add: called_def)

subsection \<open>One step of the cascade\<close>

lemma registered_edge_facts:
  assumes "wrappers_ok G" and "(p, e) \<in> set (g_edges G)"
  shows "e_ptr e = p" and "p \<noteq> 0" and "\<not> e_disposed e" and "e_graph_ref e = g_self G"
  using assms by (auto simp: wrappers_ok_def)

lemma registered_vertex_facts:
  assumes "wrappers_ok G" and "(p, v) \<in> set (g_vertices G)"
  shows "v_ptr v = p" and "p \<noteq> 0" and "\<not> v_disposed v" and "v_graph_ref v = g_self G"
  using assms by (auto simp: wrappers_ok_def)

lemma remove_edge_registered:
  assumes o: "\<not> g_closed G" and w: "wrappers_ok G" and s: "in_sync G (nstate P)"
    and ne: "g_vertices G \<noteq> []" and r: "(e_ptr e, e) \<in> set (g_edges G)"
  shows "\<exists>P1. TinkerGraph_remove_edge spec_native env G P e
                = (Inr (), G\<lparr>g_edges := AList.delete (e_ptr e) (g_edges G)\<rparr>, P1)
              \<and> nstate P1 = sn_destroy_edge (nstate P) (e_ptr e)"
proof -
  note f = registered_edge_facts [OF w r]
  have c: "dict_contains (e_ptr e) (g_edges G)"
    using r by (force simp: dict_contains_key)
  have g: "Edge_graph (heap_with env G) e = Some G"
    by (simp add: Edge_graph_def heap_with_def f(4))
  have cl: "Edge_cleanup spec_native (heap_with env G) P e
              = (Inr (), e\<lparr>e_disposed := True\<rparr>,
                 NativeGraphHandle_destroy_edge spec_native
                   (called (Call_vertex_count (g_native G)) (nstate P) P) (e_ptr e))"
    using f(2,3) by (simp add: Edge_cleanup_def g truthy_nonempty [OF o w s ne])
  show ?thesis
    using f(2)
    by (simp add: TinkerGraph_remove_edge_def open_check [OF o] c cl dict_del_def
        NativeGraphHandle_destroy_edge_def)
qed

lemma wrappers_ok_delete_edge:
  "wrappers_ok G \<Longrightarrow> wrappers_ok (G\<lparr>g_edges := AList.delete p (g_edges G)\<rparr>)"
  by (auto simp: wrappers_ok_def distinct_delete dest: in_delete)

lemma in_sync_delete_edge:
  "in_sync G n \<Longrightarrow>
   in_sync (G\<lparr>g_edges := AList.delete p (g_edges G)\<rparr>) (sn_destroy_edge n p)"
  by (simp add: in_sync_def sn_destroy_edge_def distinct_delete owned_by_delete keys_delete)

lemma wrappers_ok_delete_vertex:
  "wrappers_ok G \<Longrightarrow> wrappers_ok (G\<lparr>g_vertices := AList.delete p (g_vertices G)\<rparr>)"
  by (auto simp: wrappers_ok_def distinct_delete dest: in_delete)

lemma in_sync_delete_vertex:
  "in_sync G n \<Longrightarrow>
   in_sync (G\<lparr>g_vertices := AList.delete p (g_vertices G)\<rparr>) (sn_destroy_vertex n p)"
  by (simp add: in_sync_def sn_destroy_vertex_def distinct_delete owned_by_delete keys_delete)


lemma in_delete_iff: "x \<in> set (AList.delete k xs) \<longleftrightarrow> x \<in> set xs \<and> fst x \<noteq> k"
  by (induction xs) auto

lemma filter_delete:
  "filter (\<lambda>x. fst x \<notin> S) (AList.delete k xs) = filter (\<lambda>x. fst x \<notin> insert k S) xs"
  by (induction xs) auto

subsection \<open>The cascade loop\<close>

lemma remove_edges_registered:
  assumes "\<not> g_closed G" and "wrappers_ok G" and "in_sync G (nstate P)"
    and "g_vertices G \<noteq> []" and "distinct (map e_ptr es)"
    and "\<forall>e \<in> set es. (e_ptr e, e) \<in> set (g_edges G)"
  shows "\<exists>P1. remove_edges spec_native env G P es
                = (Inr (), G\<lparr>g_edges := filter (\<lambda>x. fst x \<notin> e_ptr ` set es) (g_edges G)\<rparr>, P1)
              \<and> nstate P1
                  = (nstate P)\<lparr>ns_edges :=
                       filter (\<lambda>x. fst x \<notin> e_ptr ` set es) (ns_edges (nstate P))\<rparr>
              \<and> wrappers_ok (G\<lparr>g_edges := filter (\<lambda>x. fst x \<notin> e_ptr ` set es) (g_edges G)\<rparr>)
              \<and> in_sync (G\<lparr>g_edges := filter (\<lambda>x. fst x \<notin> e_ptr ` set es) (g_edges G)\<rparr>)
                   (nstate P1)"
  using assms
proof (induction es arbitrary: G P)
  case Nil
  then show ?case by simp
next
  case (Cons e es)
  let ?G' = "G\<lparr>g_edges := AList.delete (e_ptr e) (g_edges G)\<rparr>"
  have r: "(e_ptr e, e) \<in> set (g_edges G)" using Cons.prems(6) by simp
  obtain P' where step:
    "TinkerGraph_remove_edge spec_native env G P e = (Inr (), ?G', P')"
    and n': "nstate P' = sn_destroy_edge (nstate P) (e_ptr e)"
    using remove_edge_registered [OF Cons.prems(1-4) r] by blast
  have o': "\<not> g_closed ?G'" using Cons.prems(1) by simp
  have w': "wrappers_ok ?G'" using Cons.prems(2) by (rule wrappers_ok_delete_edge)
  have s': "in_sync ?G' (nstate P')"
    unfolding n' using Cons.prems(3) by (rule in_sync_delete_edge)
  have ne': "g_vertices ?G' \<noteq> []" using Cons.prems(4) by simp
  have d': "distinct (map e_ptr es)" using Cons.prems(5) by simp
  have m': "\<forall>x \<in> set es. (e_ptr x, x) \<in> set (g_edges ?G')"
  proof
    fix x assume x: "x \<in> set es"
    then have "e_ptr x \<in> e_ptr ` set es" by (rule imageI)
    then have "e_ptr x \<noteq> e_ptr e" using Cons.prems(5) by auto
    moreover have "(e_ptr x, x) \<in> set (g_edges G)" using Cons.prems(6) x by simp
    ultimately show "(e_ptr x, x) \<in> set (g_edges ?G')" by (simp add: in_delete_iff)
  qed
  obtain P1 where loop:
    "remove_edges spec_native env ?G' P' es
       = (Inr (), ?G'\<lparr>g_edges := filter (\<lambda>x. fst x \<notin> e_ptr ` set es) (g_edges ?G')\<rparr>, P1)"
    and n1: "nstate P1
               = (nstate P')\<lparr>ns_edges :=
                    filter (\<lambda>x. fst x \<notin> e_ptr ` set es) (ns_edges (nstate P'))\<rparr>"
    and w1: "wrappers_ok (?G'\<lparr>g_edges := filter (\<lambda>x. fst x \<notin> e_ptr ` set es) (g_edges ?G')\<rparr>)"
    and s1: "in_sync (?G'\<lparr>g_edges := filter (\<lambda>x. fst x \<notin> e_ptr ` set es) (g_edges ?G')\<rparr>)
               (nstate P1)"
    using Cons.IH [OF o' w' s' ne' d' m'] by blast
  have eq: "?G'\<lparr>g_edges := filter (\<lambda>x. fst x \<notin> e_ptr ` set es) (g_edges ?G')\<rparr>
              = G\<lparr>g_edges := filter (\<lambda>x. fst x \<notin> e_ptr ` set (e # es)) (g_edges G)\<rparr>"
    by (simp add: filter_delete)
  have neq: "nstate P1
               = (nstate P)\<lparr>ns_edges :=
                    filter (\<lambda>x. fst x \<notin> e_ptr ` set (e # es)) (ns_edges (nstate P))\<rparr>"
    unfolding n1 n' by (simp add: sn_destroy_edge_def filter_delete)
  show ?case
    using loop w1 s1 neq unfolding eq by (simp add: step)
qed

subsection \<open>The edges selected by the cascade\<close>


lemma selected_registered:
  assumes "wrappers_ok G"
  shows "distinct (map e_ptr (edges_to_remove env G v))"
    and "\<forall>e \<in> set (edges_to_remove env G v). (e_ptr e, e) \<in> set (g_edges G)"
proof -
  have m: "map e_ptr (map snd (g_edges G)) = map fst (g_edges G)"
    using assms by (simp add: wrappers_ok_def)
  have "distinct (map e_ptr (map snd (g_edges G)))"
    unfolding m using assms by (simp add: wrappers_ok_def)
  then show "distinct (map e_ptr (edges_to_remove env G v))"
    by (simp add: edges_to_remove_def dict_values_def distinct_map_filter)
  show "\<forall>e \<in> set (edges_to_remove env G v). (e_ptr e, e) \<in> set (g_edges G)"
    using assms by (force simp: edges_to_remove_def dict_values_def wrappers_ok_def)
qed

lemma remaining_edges:
  assumes "wrappers_ok G"
  shows "filter (\<lambda>x. fst x \<notin> e_ptr ` set (edges_to_remove env G v)) (g_edges G)
           = filter (\<lambda>x. \<not> touches (heap_with env G) v (snd x)) (g_edges G)"
proof (rule filter_cong [OF refl])
  fix x assume x: "x \<in> set (g_edges G)"
  have p: "\<And>y. y \<in> set (g_edges G) \<Longrightarrow> e_ptr (snd y) = fst y"
    using assms by (simp add: wrappers_ok_def)
  have d: "distinct (map fst (g_edges G))" using assms by (simp add: wrappers_ok_def)
  have u: "\<And>y. y \<in> set (g_edges G) \<Longrightarrow> fst y = fst x \<Longrightarrow> y = x"
    using d x by (metis eq_key_imp_eq_value prod.collapse)
  show "(fst x \<notin> e_ptr ` set (edges_to_remove env G v))
          = (\<not> touches (heap_with env G) v (snd x))"
  proof
    assume a: "fst x \<notin> e_ptr ` set (edges_to_remove env G v)"
    show "\<not> touches (heap_with env G) v (snd x)"
    proof
      assume "touches (heap_with env G) v (snd x)"
      then have "snd x \<in> set (edges_to_remove env G v)"
        using x by (simp add: edges_to_remove_def dict_values_def)
      then have "e_ptr (snd x) \<in> e_ptr ` set (edges_to_remove env G v)" by simp
      then show False using a p [OF x] by simp
    qed
  next
    assume a: "\<not> touches (heap_with env G) v (snd x)"
    show "fst x \<notin> e_ptr ` set (edges_to_remove env G v)"
    proof
      assume "fst x \<in> e_ptr ` set (edges_to_remove env G v)"
      then obtain y where y: "y \<in> set (g_edges G)" "touches (heap_with env G) v (snd y)"
        and k: "fst x = e_ptr (snd y)"
        by (auto simp: edges_to_remove_def dict_values_def)
      have "y = x" using u [OF y(1)] k p [OF y(1)] by simp
      then show False using a y(2) by simp
    qed
  qed
qed



lemma vertex_cleanup_registered:
  assumes o: "\<not> g_closed G" and w: "wrappers_ok G" and s: "in_sync G (nstate P)"
    and r: "(v_ptr v, v) \<in> set (g_vertices G)"
  shows "\<exists>P1. Vertex_cleanup spec_native (heap_with env G) P v
                = (Inr (), v\<lparr>v_disposed := True\<rparr>, P1)
              \<and> nstate P1 = sn_destroy_vertex (nstate P) (v_ptr v)"
proof -
  note f = registered_vertex_facts [OF w r]
  have ne: "g_vertices G \<noteq> []" using r by auto
  have g: "Vertex_graph (heap_with env G) v = Some G"
    by (simp add: Vertex_graph_def heap_with_def f(4))
  show ?thesis
    using f(2,3)
    by (simp add: Vertex_cleanup_def g truthy_nonempty [OF o w s ne]
        NativeGraphHandle_destroy_vertex_def)
qed

text \<open>
  What \<open>remove_vertex\<close> does to a well-formed open graph and a registered vertex: the
  result, the graph and the engine afterwards.
\<close>

lemma remove_vertex_run:
  assumes o: "\<not> g_closed G" and w: "wrappers_ok G" and s: "in_sync G (nstate P)"
    and r: "registered_vertex G v"
  shows "\<exists>P1.
     TinkerGraph_remove_vertex spec_native env G P v
       = (Inr (),
          G\<lparr>g_edges := filter (\<lambda>x. \<not> touches (heap_with env G) v (snd x)) (g_edges G),
            g_vertices := AList.delete (v_ptr v) (g_vertices G)\<rparr>, P1)
     \<and> nstate P1
         = (nstate P)\<lparr>ns_edges :=
              filter (\<lambda>x. fst x \<notin> e_ptr ` set (edges_to_remove env G v)) (ns_edges (nstate P)),
            ns_vertices := AList.delete (v_ptr v) (ns_vertices (nstate P))\<rparr>
     \<and> wrappers_ok
         (G\<lparr>g_edges := filter (\<lambda>x. \<not> touches (heap_with env G) v (snd x)) (g_edges G),
            g_vertices := AList.delete (v_ptr v) (g_vertices G)\<rparr>)
     \<and> in_sync
         (G\<lparr>g_edges := filter (\<lambda>x. \<not> touches (heap_with env G) v (snd x)) (g_edges G),
            g_vertices := AList.delete (v_ptr v) (g_vertices G)\<rparr>) (nstate P1)"
proof -
  let ?es = "edges_to_remove env G v"
  define Ga where
    "Ga = G\<lparr>g_edges := filter (\<lambda>x. \<not> touches (heap_with env G) v (snd x)) (g_edges G)\<rparr>"
  define G1 where "G1 = Ga\<lparr>g_vertices := AList.delete (v_ptr v) (g_vertices Ga)\<rparr>"
  have fa: "g_vertices Ga = g_vertices G" "g_closed Ga = g_closed G" "g_self Ga = g_self G"
    by (simp_all add: Ga_def)
  have G1: "G1 = G\<lparr>g_edges := filter (\<lambda>x. \<not> touches (heap_with env G) v (snd x)) (g_edges G),
                    g_vertices := AList.delete (v_ptr v) (g_vertices G)\<rparr>"
    by (simp add: G1_def Ga_def)
  have reg: "(v_ptr v, v) \<in> set (g_vertices G)"
    using r by (simp add: registered_vertex_def map_of_SomeD)
  have ne: "g_vertices G \<noteq> []" using reg by auto
  have c: "dict_contains (v_ptr v) (g_vertices G)"
    using r by (simp add: registered_vertex_def dict_contains_def)
  note i = selected_registered [OF w, of env v]
  obtain Pa where loop: "remove_edges spec_native env G P ?es = (Inr (), Ga, Pa)"
    and na: "nstate Pa
               = (nstate P)\<lparr>ns_edges :=
                    filter (\<lambda>x. fst x \<notin> e_ptr ` set ?es) (ns_edges (nstate P))\<rparr>"
    and wa: "wrappers_ok Ga" and sa: "in_sync Ga (nstate Pa)"
    using remove_edges_registered [OF o w s ne i]
    unfolding remaining_edges [OF w] Ga_def by blast
  have oa: "\<not> g_closed Ga" using o by (simp add: fa)
  have rega: "(v_ptr v, v) \<in> set (g_vertices Ga)" using reg by (simp add: fa)
  obtain P1 where cl: "Vertex_cleanup spec_native (heap_with env Ga) Pa v
                         = (Inr (), v\<lparr>v_disposed := True\<rparr>, P1)"
    and n1: "nstate P1 = sn_destroy_vertex (nstate Pa) (v_ptr v)"
    using vertex_cleanup_registered [OF oa wa sa rega] by blast
  have ca: "dict_contains (v_ptr v) (g_vertices Ga)" using c by (simp add: fa)
  have run: "TinkerGraph_remove_vertex spec_native env G P v = (Inr (), G1, P1)"
    using c ca
    by (simp add: TinkerGraph_remove_vertex_def open_check [OF o]
        loop cl dict_del_def G1_def)
  have w1: "wrappers_ok G1" unfolding G1_def using wa by (rule wrappers_ok_delete_vertex)
  have s1: "in_sync G1 (nstate P1)"
    unfolding n1 G1_def using sa by (rule in_sync_delete_vertex)
  have n: "nstate P1
             = (nstate P)\<lparr>ns_edges :=
                  filter (\<lambda>x. fst x \<notin> e_ptr ` set ?es) (ns_edges (nstate P)),
                ns_vertices := AList.delete (v_ptr v) (ns_vertices (nstate P))\<rparr>"
    unfolding n1 na by (simp add: sn_destroy_vertex_def)
  show ?thesis
    using run n w1 s1 unfolding G1 by blast
qed

section \<open>Well-formed states are kept\<close>

text \<open>
  On the engine, a graph made by \<open>TinkerGraph()\<close> is well-formed, and \<open>add_vertex\<close>,
  \<open>add_edge\<close>, \<open>remove_edge\<close> and \<open>remove_vertex\<close> keep it so: well-formedness holds
  after any sequence of these operations on one graph. That ids are unique is not part
  of it: \<open>add_vertex\<close> does not look for the id among the registered vertices.
\<close>

lemma fresh_handle:
  assumes "engine_ok n"
  shows "\<forall>x \<in> set (ns_vertices n). fst x \<noteq> Suc (ns_next n) \<and> fst (snd x) \<noteq> Suc (ns_next n)"
    and "\<forall>x \<in> set (ns_edges n). fst x \<noteq> Suc (ns_next n) \<and> fst (snd x) \<noteq> Suc (ns_next n)"
  using assms by (fastforce simp: engine_ok_def)+

lemma owned_subset: "fst ` set (owned_by g xs) \<subseteq> fst ` set xs"
  by (auto simp: owned_by_def)

lemma update_fresh: "k \<notin> fst ` set al \<Longrightarrow> AList.update k v al = al @ [(k, v)]"
  by (induction al) auto

lemma init_ok:
  assumes "engine_ok (nstate P)"
  shows "\<exists>G P1. TinkerGraph_init spec_native P addr = (Inr G, P1) \<and> graph_ok G (nstate P1)
           \<and> g_self G = addr \<and> g_vertices G = [] \<and> g_edges G = []"
proof -
  let ?h = "Suc (ns_next (nstate P))"
  note f = fresh_handle [OF assms]
  have v: "owned_by ?h (ns_vertices (nstate P)) = []"
    using f(1) by (simp add: owned_by_def filter_empty_conv)
  have e: "owned_by ?h (ns_edges (nstate P)) = []"
    using f(2) by (simp add: owned_by_def filter_empty_conv)
  have k: "engine_ok ((nstate P)\<lparr>ns_graphs := ns_graphs (nstate P) @ [?h], ns_next := ?h\<rparr>)"
    using assms by (fastforce simp: engine_ok_def)
  show ?thesis
    using assms v e k
    by (simp add: TinkerGraph_init_def NativeGraphHandle_init_def spec_native_def sn_create_def
        Let_def called_def graph_ok_def wrappers_ok_def endpoints_ok_def in_sync_def
        engine_ok_def)
qed


lemma owned_by_append: "owned_by g (xs @ ys) = owned_by g xs @ owned_by g ys"
  by (simp add: owned_by_def)

lemma registry_fresh:
  assumes "in_sync G n" and "engine_ok n"
  shows "Suc (ns_next n) \<notin> fst ` set (g_vertices G)"
    and "Suc (ns_next n) \<notin> fst ` set (g_edges G)"
proof -
  note f = fresh_handle [OF assms(2)]
  have "Suc (ns_next n) \<notin> fst ` set (ns_vertices n)" using f(1) by force
  then have "Suc (ns_next n) \<notin> fst ` set (owned_by (g_native G) (ns_vertices n))"
    using owned_subset by fast
  then show "Suc (ns_next n) \<notin> fst ` set (g_vertices G)"
    using assms(1) by (simp add: in_sync_def)
  have "Suc (ns_next n) \<notin> fst ` set (ns_edges n)" using f(2) by force
  then have "Suc (ns_next n) \<notin> fst ` set (owned_by (g_native G) (ns_edges n))"
    using owned_subset by fast
  then show "Suc (ns_next n) \<notin> fst ` set (g_edges G)"
    using assms(1) by (simp add: in_sync_def)
qed

lemma endpoint_ok_edges: "endpoint_ok (G\<lparr>g_edges := es\<rparr>) t = endpoint_ok G t"
  by (simp add: endpoint_ok_def)

lemma endpoints_ok_add_vertex:
  assumes ep: "endpoints_ok G" and same: "g_self G' = g_self G" "g_edges G' = g_edges G"
    and fr: "h \<notin> fst ` set (g_vertices G)"
  shows "endpoints_ok (G'\<lparr>g_vertices := g_vertices G @ [(h, v)]\<rparr>)"
proof -
  have keep: "endpoint_ok (G'\<lparr>g_vertices := g_vertices G @ [(h, v)]\<rparr>) t"
    if t: "endpoint_ok G t" for t
  proof -
    obtain w where m: "map_of (g_vertices G) (v_ptr t) = Some w" and i: "v_id w = v_id t"
      using t by (auto simp: endpoint_ok_def split: option.splits)
    have "map_of (g_vertices G @ [(h, v)]) (v_ptr t) = Some w"
      using m by (simp add: map_add_def)
    then show ?thesis using t i by (simp add: endpoint_ok_def same)
  qed
  show ?thesis
    using ep by (simp add: endpoints_ok_def same keep)
qed

lemma endpoints_ok_add_edge:
  assumes ep: "endpoints_ok G"
    and en: "endpoint_ok G (e_out_vertex e)" "endpoint_ok G (e_in_vertex e)"
  shows "endpoints_ok (G\<lparr>g_edges := g_edges G @ [(h, e)]\<rparr>)"
  using ep en by (simp add: endpoints_ok_def endpoint_ok_edges)

lemma engine_ok_add_vertex:
  assumes "engine_ok n" and "g \<in> set (ns_graphs n)"
  shows "engine_ok (n\<lparr>ns_vertices := ns_vertices n @ [(Suc (ns_next n), g, name)],
                      ns_next := Suc (ns_next n)\<rparr>)"
proof -
  note f = fresh_handle [OF assms(1)]
  have "Suc (ns_next n) \<notin> fst ` set (ns_vertices n)" using f(1) by force
  then show ?thesis
    using assms by (fastforce simp: engine_ok_def)
qed

lemma engine_ok_add_edge:
  assumes "engine_ok n" and "g \<in> set (ns_graphs n)"
  shows "engine_ok (n\<lparr>ns_edges := ns_edges n @ [(Suc (ns_next n), g, rest)],
                      ns_next := Suc (ns_next n)\<rparr>)"
proof -
  note f = fresh_handle [OF assms(1)]
  have "Suc (ns_next n) \<notin> fst ` set (ns_edges n)" using f(2) by force
  then show ?thesis
    using assms by (fastforce simp: engine_ok_def)
qed

lemma extend_vertex_ok:
  assumes ok: "graph_ok G n"
    and same: "g_self G' = g_self G" "g_native G' = g_native G" "g_closed G' = g_closed G"
      "g_vertices G' = g_vertices G" "g_edges G' = g_edges G"
    and v: "v_ptr v = Suc (ns_next n)" "\<not> v_disposed v" "v_graph_ref v = g_self G"
  shows "graph_ok (G'\<lparr>g_vertices := AList.update (Suc (ns_next n)) v (g_vertices G')\<rparr>)
           (n\<lparr>ns_vertices := ns_vertices n @ [(Suc (ns_next n), g_native G, name)],
              ns_next := Suc (ns_next n)\<rparr>)"
proof -
  let ?h = "Suc (ns_next n)"
  have w: "wrappers_ok G" and s: "in_sync G n" and e: "engine_ok n"
    and g: "g_native G \<in> set (ns_graphs n)" and o: "\<not> g_closed G"
    and ep: "endpoints_ok G"
    using ok by (simp_all add: graph_ok_def)
  note fr = registry_fresh [OF s e]
  have u: "AList.update ?h v (g_vertices G') = g_vertices G @ [(?h, v)]"
    using fr(1) by (simp add: same update_fresh)
  have ep1: "endpoints_ok (G'\<lparr>g_vertices := g_vertices G @ [(?h, v)]\<rparr>)"
    using ep same(1,5) fr(1) by (rule endpoints_ok_add_vertex)
  have nf: "?h \<notin> fst ` set (ns_vertices n)" using fresh_handle(1) [OF e] by force
  have w1: "wrappers_ok (G'\<lparr>g_vertices := g_vertices G @ [(?h, v)]\<rparr>)"
    using w fr(1) v by (auto simp: wrappers_ok_def same)
  have s1: "in_sync (G'\<lparr>g_vertices := g_vertices G @ [(?h, v)]\<rparr>)
              (n\<lparr>ns_vertices := ns_vertices n @ [(?h, g_native G, name)], ns_next := ?h\<rparr>)"
    using s nf by (simp add: in_sync_def same owned_by_append) (simp add: owned_by_def)
  show ?thesis
    unfolding u
    using w1 ep1 s1 engine_ok_add_vertex [OF e g] o g
    by (simp add: graph_ok_def same)
qed


lemma native_add_vertex_spec:
  assumes "g \<in> set (ns_graphs (nstate P))"
  shows "\<exists>Pa.
           (if ps \<noteq> [] then NativeGraphHandle_add_vertex_with_properties spec_native P g vid ps
            else NativeGraphHandle_add_vertex spec_native P g vid)
             = (Inr (Suc (ns_next (nstate P))), Pa)
           \<and> nstate Pa = (nstate P)\<lparr>ns_vertices := ns_vertices (nstate P)
                                          @ [(Suc (ns_next (nstate P)), g,
                                              case id_bytes vid of
                                                None \<Rightarrow> str_of_nat (Suc (ns_next (nstate P)))
                                              | Some s \<Rightarrow> s)],
                                      ns_next := Suc (ns_next (nstate P))\<rparr>"
  using assms
  by (simp add: NativeGraphHandle_add_vertex_with_properties_def NativeGraphHandle_add_vertex_def
      spec_native_def sn_add_vertex_with_properties_def sn_add_vertex_def Let_def called_def)

lemma new_vertex_id_same:
  "\<exists>s G' P2. new_vertex_id nt G Pa vid p = (s, G', P2) \<and> nstate P2 = nstate Pa
      \<and> g_self G' = g_self G \<and> g_native G' = g_native G \<and> g_closed G' = g_closed G
      \<and> g_vertices G' = g_vertices G \<and> g_edges G' = g_edges G"
  by (auto simp: new_vertex_id_def NativeGraphHandle_get_vertex_id_def Let_def called_def
      split: option.splits prod.splits sum.splits if_splits)

text \<open>
  On the engine, \<open>add_vertex\<close> with well-typed arguments succeeds on a well-formed open
  graph and leaves it well-formed, with the new vertex registered.
\<close>

lemma add_vertex_ok:
  assumes ok: "graph_ok G (nstate P)"
    and tl: "label = PNone \<or> isinstance_str label"
    and ti: "vertex_id = PNone \<or> isinstance_str vertex_id"
  shows "\<exists>v G1 P1. TinkerGraph_add_vertex spec_native env G P label vertex_id props
                      = (Inr v, G1, P1)
           \<and> graph_ok G1 (nstate P1) \<and> registered_vertex G1 v"
proof -
  let ?h = "Suc (ns_next (nstate P))"
  let ?all = "if label_or_default label \<noteq> ''vertex''
              then AList.update ''label'' (PStr (label_or_default label)) props else props"
  have o: "\<not> g_closed G" and g: "g_native G \<in> set (ns_graphs (nstate P))"
    using ok by (simp_all add: graph_ok_def)
  define name where
    "name = (case id_bytes (optional_str vertex_id) of None \<Rightarrow> str_of_nat ?h | Some s \<Rightarrow> s)"
  obtain Pa where nat:
    "(if ?all \<noteq> [] then NativeGraphHandle_add_vertex_with_properties spec_native P (g_native G)
                           (optional_str vertex_id) ?all
      else NativeGraphHandle_add_vertex spec_native P (g_native G) (optional_str vertex_id))
       = (Inr ?h, Pa)"
    and na: "nstate Pa = (nstate P)\<lparr>ns_vertices := ns_vertices (nstate P)
                                          @ [(?h, g_native G, name)], ns_next := ?h\<rparr>"
    using native_add_vertex_spec [OF g, of ?all "optional_str vertex_id"]
    unfolding name_def by blast
  obtain s G' P2 where nv: "new_vertex_id spec_native G Pa vertex_id ?h = (s, G', P2)"
    and n2: "nstate P2 = nstate Pa"
    and same: "g_self G' = g_self G" "g_native G' = g_native G" "g_closed G' = g_closed G"
      "g_vertices G' = g_vertices G" "g_edges G' = g_edges G"
    using new_vertex_id_same [of spec_native G Pa vertex_id ?h] by blast
  define v where "v = \<lparr>v_graph_ref = g_self G, v_ptr = ?h, v_id = s,
                        v_label = label_or_default label, v_properties = props,
                        v_disposed = False\<rparr>"
  define G1 where "G1 = G'\<lparr>g_vertices := AList.update ?h v (g_vertices G')\<rparr>"
  have run: "TinkerGraph_add_vertex spec_native env G P label vertex_id props = (Inr v, G1, P2)"
    using tl ti
    by (simp add: TinkerGraph_add_vertex_def open_check [OF o] Let_def nat nv v_def G1_def)
  have vf: "v_ptr v = ?h" "\<not> v_disposed v" "v_graph_ref v = g_self G"
    by (simp_all add: v_def)
  have "graph_ok G1 (nstate P2)"
    unfolding G1_def n2 na using ok same vf by (rule extend_vertex_ok)
  moreover have "registered_vertex G1 v"
    by (simp add: registered_vertex_def G1_def vf update_conv')
  ultimately show ?thesis using run by blast
qed


lemma extend_edge_ok:
  assumes ok: "graph_ok G n"
    and e: "e_ptr e = Suc (ns_next n)" "\<not> e_disposed e" "e_graph_ref e = g_self G"
    and en: "endpoint_ok G (e_out_vertex e)" "endpoint_ok G (e_in_vertex e)"
  shows "graph_ok (G\<lparr>g_edges := AList.update (Suc (ns_next n)) e (g_edges G)\<rparr>)
           (n\<lparr>ns_edges := ns_edges n @ [(Suc (ns_next n), g_native G, rest)],
              ns_next := Suc (ns_next n)\<rparr>)"
proof -
  let ?h = "Suc (ns_next n)"
  have w: "wrappers_ok G" and s: "in_sync G n" and k: "engine_ok n"
    and g: "g_native G \<in> set (ns_graphs n)" and o: "\<not> g_closed G"
    and ep: "endpoints_ok G"
    using ok by (simp_all add: graph_ok_def)
  note fr = registry_fresh [OF s k]
  have u: "AList.update ?h e (g_edges G) = g_edges G @ [(?h, e)]"
    using fr(2) by (simp add: update_fresh)
  have ep1: "endpoints_ok (G\<lparr>g_edges := g_edges G @ [(?h, e)]\<rparr>)"
    using ep en by (rule endpoints_ok_add_edge)
  have nf: "?h \<notin> fst ` set (ns_edges n)" using fresh_handle(2) [OF k] by force
  have w1: "wrappers_ok (G\<lparr>g_edges := g_edges G @ [(?h, e)]\<rparr>)"
    using w fr(2) e by (auto simp: wrappers_ok_def)
  have s1: "in_sync (G\<lparr>g_edges := g_edges G @ [(?h, e)]\<rparr>)
              (n\<lparr>ns_edges := ns_edges n @ [(?h, g_native G, rest)], ns_next := ?h\<rparr>)"
    using s nf by (simp add: in_sync_def owned_by_append) (simp add: owned_by_def)
  show ?thesis
    unfolding u
    using w1 ep1 s1 engine_ok_add_edge [OF k g] o g
    by (simp add: graph_ok_def)
qed

lemma native_add_edge_spec:
  assumes "g \<in> set (ns_graphs (nstate P))"
    and "a \<in> fst ` set (owned_by g (ns_vertices (nstate P)))"
    and "b \<in> fst ` set (owned_by g (ns_vertices (nstate P)))"
  shows "\<exists>Pa.
           (if ps \<noteq> [] then NativeGraphHandle_add_edge_with_properties spec_native P g lbl a b ps
            else NativeGraphHandle_add_edge spec_native P g lbl a b)
             = (Inr (Suc (ns_next (nstate P))), Pa)
           \<and> nstate Pa = (nstate P)\<lparr>ns_edges := ns_edges (nstate P)
                                          @ [(Suc (ns_next (nstate P)), g, lbl, a, b)],
                                      ns_next := Suc (ns_next (nstate P))\<rparr>"
  using assms
  by (simp add: NativeGraphHandle_add_edge_with_properties_def NativeGraphHandle_add_edge_def
      spec_native_def sn_add_edge_with_properties_def sn_add_edge_def Let_def called_def)

text \<open>
  On the engine, \<open>add_edge\<close> with a string label between two registered vertices succeeds
  on a well-formed open graph and leaves it well-formed, with the new edge registered.
\<close>

lemma add_edge_ok:
  assumes ok: "graph_ok G (nstate P)"
    and ra: "registered_vertex G a" and rb: "registered_vertex G b"
  shows "\<exists>e G1 P1. TinkerGraph_add_edge spec_native env G P (PStr lbl) (Obj_Vertex a)
                       (Obj_Vertex b) edge_id props = (Inr e, G1, P1)
           \<and> graph_ok G1 (nstate P1) \<and> map_of (g_edges G1) (e_ptr e) = Some e
           \<and> g_vertices G1 = g_vertices G"
proof -
  let ?h = "Suc (ns_next (nstate P))"
  have o: "\<not> g_closed G" and g: "g_native G \<in> set (ns_graphs (nstate P))"
    and w: "wrappers_ok G" and s: "in_sync G (nstate P)"
    using ok by (simp_all add: graph_ok_def)
  have ma: "(v_ptr a, a) \<in> set (g_vertices G)" "(v_ptr b, b) \<in> set (g_vertices G)"
    using ra rb by (simp_all add: registered_vertex_def map_of_SomeD)
  have refs: "v_graph_ref a = g_self G" "v_graph_ref b = g_self G"
    using w ma by (auto simp: wrappers_ok_def)
  have "v_ptr a \<in> fst ` set (g_vertices G)" "v_ptr b \<in> fst ` set (g_vertices G)"
    using ma by force+
  then have own: "v_ptr a \<in> fst ` set (owned_by (g_native G) (ns_vertices (nstate P)))"
    "v_ptr b \<in> fst ` set (owned_by (g_native G) (ns_vertices (nstate P)))"
    using s by (simp_all add: in_sync_def)
  obtain Pa where nat:
    "(if props \<noteq> [] then NativeGraphHandle_add_edge_with_properties spec_native P (g_native G)
                            lbl (v_ptr a) (v_ptr b) props
      else NativeGraphHandle_add_edge spec_native P (g_native G) lbl (v_ptr a) (v_ptr b))
       = (Inr ?h, Pa)"
    and na: "nstate Pa = (nstate P)\<lparr>ns_edges := ns_edges (nstate P)
                                          @ [(?h, g_native G, lbl, v_ptr a, v_ptr b)],
                                    ns_next := ?h\<rparr>"
    using native_add_edge_spec [OF g own] by blast
  define e where "e = \<lparr>e_graph_ref = g_self G, e_ptr = ?h,
                        e_id = (case edge_id of Some s \<Rightarrow> s
                                | None \<Rightarrow> v_id a @ ''-'' @ lbl @ ''->'' @ v_id b),
                        e_label = lbl, e_out_vertex = a, e_in_vertex = b,
                        e_properties = props, e_disposed = False\<rparr>"
  define G1 where "G1 = G\<lparr>g_edges := AList.update ?h e (g_edges G)\<rparr>"
  have run: "TinkerGraph_add_edge spec_native env G P (PStr lbl) (Obj_Vertex a) (Obj_Vertex b)
               edge_id props = (Inr e, G1, Pa)"
    by (simp add: TinkerGraph_add_edge_def open_check [OF o] own_this_graph [OF refs(1)]
        own_this_graph [OF refs(2)] nat Let_def e_def G1_def)
  have ef: "e_ptr e = ?h" "\<not> e_disposed e" "e_graph_ref e = g_self G"
    by (simp_all add: e_def)
  have en: "endpoint_ok G (e_out_vertex e)" "endpoint_ok G (e_in_vertex e)"
    using ra rb refs by (simp_all add: e_def endpoint_ok_def registered_vertex_def)
  have "graph_ok G1 (nstate Pa)"
    unfolding G1_def na using ok ef en by (rule extend_edge_ok)
  moreover have "map_of (g_edges G1) (e_ptr e) = Some e"
    by (simp add: G1_def ef update_conv')
  moreover have "g_vertices G1 = g_vertices G" by (simp add: G1_def)
  ultimately show ?thesis using run by blast
qed

lemma engine_ok_shrink:
  assumes "engine_ok n"
  shows "engine_ok (n\<lparr>ns_edges := filter Q (ns_edges n)\<rparr>)"
    and "engine_ok (n\<lparr>ns_vertices := AList.delete p (ns_vertices n)\<rparr>)"
    and "engine_ok (n\<lparr>ns_edges := AList.delete p (ns_edges n)\<rparr>)"
  using assms
  by (auto simp: engine_ok_def distinct_map_filter distinct_delete dest: in_delete)

text \<open>
  An endpoint with the handle of a registered vertex \<open>v\<close> is equal to \<open>v\<close>; when no other
  registered vertex has the id of \<open>v\<close>, the converse holds too, and \<open>==\<close> on \<open>v\<close> is
  identity of handles.
\<close>

lemma same_handle_eq:
  assumes w: "wrappers_ok G" and r: "registered_vertex G v"
    and t: "endpoint_ok G t" and p: "v_ptr t = v_ptr v"
  shows "Vertex_eq (heap_with env G) t v"
proof -
  have reg: "(v_ptr v, v) \<in> set (g_vertices G)"
    using r by (simp add: registered_vertex_def map_of_SomeD)
  have rv: "v_graph_ref v = g_self G" using w reg by (auto simp: wrappers_ok_def)
  have rt: "v_graph_ref t = g_self G" using t by (simp add: endpoint_ok_def)
  have "v_id t = v_id v"
    using t r p by (simp add: endpoint_ok_def registered_vertex_def)
  then show ?thesis by (simp add: Vertex_eq_def rv rt)
qed


lemma endpoints_ok_delete_edge:
  assumes "endpoints_ok G"
  shows "endpoints_ok (G\<lparr>g_edges := AList.delete k (g_edges G)\<rparr>)"
  using assms by (auto simp: endpoints_ok_def endpoint_ok_edges dest: in_delete)

lemma endpoints_ok_remove_vertex:
  assumes w: "wrappers_ok G" and r: "registered_vertex G v" and ep: "endpoints_ok G"
  shows "endpoints_ok
           (G\<lparr>g_edges := filter (\<lambda>x. \<not> touches (heap_with env G) v (snd x)) (g_edges G),
              g_vertices := AList.delete (v_ptr v) (g_vertices G)\<rparr>)"
proof -
  have keep: "endpoint_ok (G\<lparr>g_edges := es, g_vertices := AList.delete (v_ptr v) (g_vertices G)\<rparr>) t"
    if t: "endpoint_ok G t" and n: "\<not> Vertex_eq (heap_with env G) t v" for t es
  proof -
    have "v_ptr t \<noteq> v_ptr v" using same_handle_eq [OF w r t] n by blast
    then show ?thesis using t by (simp add: endpoint_ok_def delete_conv')
  qed
  show ?thesis
    using ep by (simp add: endpoints_ok_def touches_def keep)
qed

lemma remove_edge_ok:
  assumes ok: "graph_ok G (nstate P)" and r: "map_of (g_edges G) (e_ptr e) = Some e"
    and ne: "g_vertices G \<noteq> []"
  shows "\<exists>G1 P1. TinkerGraph_remove_edge spec_native env G P e = (Inr (), G1, P1)
           \<and> graph_ok G1 (nstate P1)"
proof -
  have o: "\<not> g_closed G" and w: "wrappers_ok G" and s: "in_sync G (nstate P)"
    and k: "engine_ok (nstate P)" and g: "g_native G \<in> set (ns_graphs (nstate P))"
    using ok by (simp_all add: graph_ok_def)
  have m: "(e_ptr e, e) \<in> set (g_edges G)" using r by (rule map_of_SomeD)
  let ?G' = "G\<lparr>g_edges := AList.delete (e_ptr e) (g_edges G)\<rparr>"
  obtain P1 where run: "TinkerGraph_remove_edge spec_native env G P e = (Inr (), ?G', P1)"
    and n1: "nstate P1 = sn_destroy_edge (nstate P) (e_ptr e)"
    using remove_edge_registered [OF o w s ne m] by blast
  have ep: "endpoints_ok G" using ok by (simp add: graph_ok_def)
  have "graph_ok ?G' (nstate P1)"
    unfolding n1
    using o g wrappers_ok_delete_edge [OF w] in_sync_delete_edge [OF s]
      engine_ok_shrink(3) [OF k] endpoints_ok_delete_edge [OF ep]
    by (simp add: graph_ok_def sn_destroy_edge_def)
  then show ?thesis using run by blast
qed

lemma remove_vertex_ok:
  assumes ok: "graph_ok G (nstate P)" and r: "registered_vertex G v"
  shows "\<exists>G1 P1. TinkerGraph_remove_vertex spec_native env G P v = (Inr (), G1, P1)
           \<and> graph_ok G1 (nstate P1)"
proof -
  have o: "\<not> g_closed G" and w: "wrappers_ok G" and s: "in_sync G (nstate P)"
    and k: "engine_ok (nstate P)" and g: "g_native G \<in> set (ns_graphs (nstate P))"
    using ok by (simp_all add: graph_ok_def)
  let ?G1 = "G\<lparr>g_edges := filter (\<lambda>x. \<not> touches (heap_with env G) v (snd x)) (g_edges G),
               g_vertices := AList.delete (v_ptr v) (g_vertices G)\<rparr>"
  let ?n1 = "(nstate P)\<lparr>ns_edges :=
                filter (\<lambda>x. fst x \<notin> e_ptr ` set (edges_to_remove env G v)) (ns_edges (nstate P)),
              ns_vertices := AList.delete (v_ptr v) (ns_vertices (nstate P))\<rparr>"
  obtain P1 where run: "TinkerGraph_remove_vertex spec_native env G P v = (Inr (), ?G1, P1)"
    and n1: "nstate P1 = ?n1" and w1: "wrappers_ok ?G1" and s1: "in_sync ?G1 (nstate P1)"
    using remove_vertex_run [OF o w s r] by blast
  have ep: "endpoints_ok G" using ok by (simp add: graph_ok_def)
  have "engine_ok ?n1"
    using engine_ok_shrink(2) [OF engine_ok_shrink(1) [OF k]] by simp
  then have "graph_ok ?G1 (nstate P1)"
    using o g w1 s1 endpoints_ok_remove_vertex [OF w r ep]
    by (simp add: graph_ok_def n1)
  then show ?thesis using run by blast
qed

section \<open>The cascade invariant\<close>








lemma scenario_remove_alice:
  "TinkerGraph_remove_vertex spec_native ex_env ex_G ex_P ex_alice
     = (Inr (), ex_G\<lparr>g_vertices := [(3, ex_bob)], g_edges := []\<rparr>,
        \<lparr>nstate = ex_native\<lparr>ns_vertices := [(3, 1, ''bob''), (6, 5, ''6'')], ns_edges := []\<rparr>,
         calls = ex_calls @ [Call_vertex_count 1, Call_destroy_edge 4, Call_vertex_count 1,
                             Call_destroy_vertex 2]\<rparr>)"
  by (simp add: graph_defs broker_defs engine_defs ex_defs)


text \<open>
  The second run: its states are the ones the operations produce from the empty engine.
\<close>

lemma dup_run:
  "(case TinkerGraph_init spec_native ex_P0 1 of
      (Inr G0, P1) \<Rightarrow>
        (case TinkerGraph_add_vertex spec_native (\<lambda>r. None) G0 P1 PNone (PStr []) [] of
           (Inr a, G1, P2) \<Rightarrow>
             (case TinkerGraph_add_vertex spec_native (\<lambda>r. None) G1 P2 PNone (PStr []) [] of
                (Inr c, G2, P3) \<Rightarrow>
                  (case TinkerGraph_add_vertex spec_native (\<lambda>r. None) G2 P3 PNone
                          (PStr ''d'') [] of
                     (Inr d, G3, P4) \<Rightarrow>
                       (case TinkerGraph_add_edge spec_native (\<lambda>r. None) G3 P4 (PStr ''r'')
                               (Obj_Vertex c) (Obj_Vertex d) None [] of
                          (Inr e, G4, P5) \<Rightarrow> Some (a, c, d, e, G4, P5)
                        | _ \<Rightarrow> None)
                   | _ \<Rightarrow> None)
              | _ \<Rightarrow> None)
         | _ \<Rightarrow> None)
    | _ \<Rightarrow> None)
   = Some (dup_a, dup_c, dup_d, dup_r, dup_G, dup_P)"
  by (simp add: graph_defs broker_defs engine_defs ex_P0_def dup_defs Let_def digit_codes) force


end
